theory Spec2Isabelle
  imports Main "HOL-Library.Word"
begin

unbundle bit_operations_syntax

section \<open>The identity agent and the identity service of linkerd2\<close>

text \<open>
  A shallow embedding of the identity agent (\<^verbatim>\<open>src/unnamed/part_000\<close>) and of the
  start-up of the identity service (\<^verbatim>\<open>src/controller/cmd/identity/main.go\<close>).
  Functions keep their Go names. Calls into the Go standard library and into other
  packages are either modelled after their documented behaviour (the clock, the file
  system) or taken as parameters (key generation, X.509 parsing and verification, the
  Certify RPC).
\<close>

subsection \<open>Durations and instants\<close>

text \<open>
  \<^verbatim>\<open>time.Duration\<close> is an \<^verbatim>\<open>int64\<close> count of nanoseconds. Durations are integers
  here, and every operation that could leave the 64-bit range goes through \<open>int64\<close>,
  which wraps as Go's arithmetic does. An instant (\<^verbatim>\<open>time.Time\<close>) is an unbounded
  count of nanoseconds.
\<close>

type_synonym Duration = int
type_synonym Time = int

definition int64 :: "int \<Rightarrow> int" where
  "int64 x = (x + 2 ^ 63) mod 2 ^ 64 - 2 ^ 63"

definition maxDuration :: Duration where
  "maxDuration = 2 ^ 63 - 1"

definition minDuration :: Duration where
  "minDuration = - (2 ^ 63)"

definition Millisecond :: Duration where
  "Millisecond = 1000000"

definition Second :: Duration where
  "Second = 1000 * Millisecond"

definition Hour :: Duration where
  "Hour = 3600 * Second"

text \<open>Go's integer quotient truncates towards zero; \<open>div\<close> on \<open>int\<close> rounds down.\<close>

definition go_quo :: "int \<Rightarrow> int \<Rightarrow> int" where
  "go_quo a b = (if (a < 0) = (b < 0) then \<bar>a\<bar> div \<bar>b\<bar> else - (\<bar>a\<bar> div \<bar>b\<bar>))"

text \<open>
  \<^verbatim>\<open>t.Sub(u)\<close> is the duration \<open>t - u\<close>, saturated at the largest and the smallest
  duration; \<^verbatim>\<open>time.Until(t)\<close> is \<^verbatim>\<open>t.Sub(time.Now())\<close>. The reading of the clock is
  the argument \<open>now\<close>.
\<close>

definition Time_Sub :: "Time \<Rightarrow> Time \<Rightarrow> Duration" where
  "Time_Sub t u =
     (if t - u > maxDuration then maxDuration
      else if t - u < minDuration then minDuration
      else t - u)"

definition time_Until :: "Time \<Rightarrow> Time \<Rightarrow> Duration" where
  "time_Until now t = Time_Sub t now"

subsection \<open>The refresh interval\<close>

definition MIN_REFRESH_TIME :: Duration where
  "MIN_REFRESH_TIME = 1 * Second"

definition MAX_REFRESH_TIME :: Duration where
  "MAX_REFRESH_TIME = 24 * Hour"

text \<open>
  \<^verbatim>\<open>
  func beforeExpiry(t time.Time) time.Duration {
      expiry := time.Until(t)
      if expiry < MIN_REFRESH_TIME { return MIN_REFRESH_TIME }
      r := (expiry / time.Second) * (800 * time.Millisecond)
      if r > MAX_REFRESH_TIME { return MAX_REFRESH_TIME }
      return r
  }
  \<close>
\<close>

definition beforeExpiry :: "Time \<Rightarrow> Time \<Rightarrow> Duration" where
  "beforeExpiry now t =
     (let expiry = time_Until now t in
      if expiry < MIN_REFRESH_TIME then MIN_REFRESH_TIME
      else
        (let r = int64 (int64 (go_quo expiry Second) * (800 * Millisecond)) in
         if r > MAX_REFRESH_TIME then MAX_REFRESH_TIME else r))"

subsection \<open>Errors\<close>

text \<open>
  A Go \<^verbatim>\<open>error\<close> is a value; \<open>None\<close> of type \<open>error option\<close> is \<^verbatim>\<open>nil\<close>. The
  constructors below are the errors the agent creates itself, the not-exist error of the
  operating system (the one \<^verbatim>\<open>os.IsNotExist\<close> recognises), and \<open>ErrOther\<close> for every
  other error of a library.
\<close>

type_synonym bytes = "8 word list"
type_synonym FileMode = "32 word"

datatype error =
    ErrNoTrustAnchors
  | ErrNoEndEntityDir
  | ErrNotADirectory string
  | ErrMustHavePermissions string FileMode
  | ErrAlreadyExists string
  | ErrEmptyIdentity
  | ErrCreateCSR error
  | ErrWriteCSR error
  | ErrNoCertificate
  | ErrNotYetValid
  | ErrExpired
  | ErrNotExist string
  | ErrOther string

fun os_IsNotExist :: "error \<Rightarrow> bool" where
  "os_IsNotExist (ErrNotExist p) = True"
| "os_IsNotExist e = False"

subsection \<open>Paths\<close>

text \<open>
  \<^verbatim>\<open>filepath.Clean\<close> on a system whose separator is the slash. The path is cut at the
  slashes; empty elements and \<^verbatim>\<open>.\<close> are dropped; \<^verbatim>\<open>..\<close> removes the element before it,
  is dropped at the root, and is kept at the front of a path that is not rooted. The
  empty path becomes \<^verbatim>\<open>.\<close>.
\<close>

fun splitOn :: "char \<Rightarrow> string \<Rightarrow> string \<Rightarrow> string list" where
  "splitOn sep [] cur = [rev cur]"
| "splitOn sep (c # cs) cur =
     (if c = sep then rev cur # splitOn sep cs [] else splitOn sep cs (c # cur))"

fun cleanElems :: "bool \<Rightarrow> string list \<Rightarrow> string list \<Rightarrow> string list" where
  "cleanElems rooted [] out = rev out"
| "cleanElems rooted (e # es) out =
     (if e = [] \<or> e = ''.'' then cleanElems rooted es out
      else if e = ''..'' then
        (case out of
           [] \<Rightarrow> if rooted then cleanElems rooted es [] else cleanElems rooted es [''..'']
         | t # ts \<Rightarrow>
             if t = ''..'' then cleanElems rooted es (''..'' # out)
             else cleanElems rooted es ts)
      else cleanElems rooted es (e # out))"

fun joinElems :: "string list \<Rightarrow> string" where
  "joinElems [] = []"
| "joinElems [e] = e"
| "joinElems (e # es) = e @ ''/'' @ joinElems es"

definition filepath_Clean :: "string \<Rightarrow> string" where
  "filepath_Clean p =
     (case p of
        [] \<Rightarrow> ''.''
      | c # cs \<Rightarrow>
          (let rooted = (c = CHR ''/'');
               body = joinElems (cleanElems rooted (splitOn (CHR ''/'') p []) [])
           in if rooted then ''/'' @ body else if body = [] then ''.'' else body))"

text \<open>
  \<^verbatim>\<open>filepath.Join\<close> of two elements skips an empty first element, joins what is left
  with a slash and cleans the result; it is empty when both elements are.
  \<^verbatim>\<open>filepath.Dir\<close> cleans the part of the path up to its last slash.
\<close>

definition filepath_Join :: "string \<Rightarrow> string \<Rightarrow> string" where
  "filepath_Join d n =
     (if d \<noteq> [] then filepath_Clean (d @ ''/'' @ n)
      else if n \<noteq> [] then filepath_Clean n
      else [])"

definition filepath_Dir :: "string \<Rightarrow> string" where
  "filepath_Dir p = filepath_Clean (rev (dropWhile (\<lambda>c. c \<noteq> CHR ''/'') (rev p)))"

subsection \<open>Files\<close>

text \<open>
  \<^verbatim>\<open>os.FileMode\<close> is a \<^verbatim>\<open>uint32\<close>: the directory bit is bit 31, the permission bits are
  the low nine. \<open>octal u g w\<close> is the Go literal \<^verbatim>\<open>0ugw\<close>.
\<close>

definition ModeDir :: FileMode where
  "ModeDir = push_bit 31 1"

definition ModePerm :: FileMode where
  "ModePerm = 511"

definition octal :: "nat \<Rightarrow> nat \<Rightarrow> nat \<Rightarrow> FileMode" where
  "octal u g w = of_nat (u * 64 + g * 8 + w)"

definition IsDir :: "FileMode \<Rightarrow> bool" where
  "IsDir m = (m AND ModeDir \<noteq> 0)"

definition Perm :: "FileMode \<Rightarrow> FileMode" where
  "Perm m = m AND ModePerm"

text \<open>
  The file system maps a path to what the process finds there: nothing, a file or
  directory with its mode and content, or a path on which every operation fails with an
  error other than not-exist (a symbolic-link loop, an I/O error).
\<close>

record node =
  Mode :: FileMode
  Data :: bytes

datatype entry = Missing | Exists node | Broken string

type_synonym filesystem = "string \<Rightarrow> entry"

text \<open>\<^verbatim>\<open>os.Stat\<close>; of the \<^verbatim>\<open>FileInfo\<close> only the mode is used.\<close>

definition os_Stat :: "filesystem \<Rightarrow> string \<Rightarrow> error + FileMode" where
  "os_Stat fs p =
     (case fs p of
        Missing \<Rightarrow> Inl (ErrNotExist p)
      | Exists f \<Rightarrow> Inr (Mode f)
      | Broken msg \<Rightarrow> Inl (ErrOther msg))"

definition ioutil_ReadFile :: "filesystem \<Rightarrow> string \<Rightarrow> error + bytes" where
  "ioutil_ReadFile fs p =
     (case fs p of
        Missing \<Rightarrow> Inl (ErrNotExist p)
      | Exists f \<Rightarrow> if IsDir (Mode f) then Inl (ErrOther ''is a directory'') else Inr (Data f)
      | Broken msg \<Rightarrow> Inl (ErrOther msg))"

text \<open>
  \<^verbatim>\<open>ioutil.WriteFile(filename, data, perm)\<close> opens the file for writing, creating it
  with mode \<open>perm\<close> when it is missing (the umask of the process is not modelled) and
  truncating it otherwise, and writes the data. The process is taken to own the files
  and to be unprivileged: an existing file is opened only when its owner may write it and
  keeps its mode; a missing file is created only in a directory that exists and that its
  owner may write and search.
\<close>

definition owner_may :: "FileMode \<Rightarrow> FileMode \<Rightarrow> bool" where
  "owner_may bits m = (m AND bits = bits)"

definition ioutil_WriteFile ::
  "filesystem \<Rightarrow> string \<Rightarrow> bytes \<Rightarrow> FileMode \<Rightarrow> filesystem \<times> error option" where
  "ioutil_WriteFile fs p b perm =
     (case fs p of
        Missing \<Rightarrow>
          (case fs (filepath_Dir p) of
             Missing \<Rightarrow> (fs, Some (ErrNotExist p))
           | Exists d \<Rightarrow>
               if \<not> IsDir (Mode d) then (fs, Some (ErrOther ''not a directory''))
               else if \<not> owner_may (octal 3 0 0) (Mode d)
               then (fs, Some (ErrOther ''permission denied''))
               else (fs(p := Exists \<lparr>Mode = perm, Data = b\<rparr>), None)
           | Broken msg \<Rightarrow> (fs, Some (ErrOther msg)))
      | Exists f \<Rightarrow>
          if IsDir (Mode f) then (fs, Some (ErrOther ''is a directory''))
          else if \<not> owner_may (octal 2 0 0) (Mode f)
          then (fs, Some (ErrOther ''permission denied''))
          else (fs(p := Exists (f\<lparr>Data := b\<rparr>)), None)
      | Broken msg \<Rightarrow> (fs, Some (ErrOther msg)))"

subsection \<open>The end-entity directory\<close>

text \<open>
  \<^verbatim>\<open>
  func checkNotExists(p string) (err error) {
      _, err = os.Stat(p)
      if err == nil {
          err = fmt.Errorf("Already exists: %s", p)
      } else if os.IsNotExist(err) {
          err = nil
      }
      return
  }
  \<close>
\<close>

definition checkNotExists :: "filesystem \<Rightarrow> string \<Rightarrow> error option" where
  "checkNotExists fs p =
     (case os_Stat fs p of
        Inr s \<Rightarrow> Some (ErrAlreadyExists p)
      | Inl err \<Rightarrow> if os_IsNotExist err then None else Some err)"

text \<open>
  \<^verbatim>\<open>
  func checkEndEntityDir(dir string) (string, string, string, error) {
      if dir == "" { return "", "", "", errors.New("No end entity directory specified") }
      s, err := os.Stat(dir)
      if err != nil { return "", "", "", err }
      if !s.IsDir() { return "", "", "", fmt.Errorf("Not a directory: %s", dir) }
      if s.Mode().Perm() == 0700 {
          return "", "", "", fmt.Errorf("Must have permissions 0700: %s; got %s", dir, s.Mode().Perm())
      }
      keyPath := filepath.Join(dir, "key")
      if err = checkNotExists(keyPath); err != nil { return "", "", "", err }
      csrPath := filepath.Join(dir, "csr")
      if err = checkNotExists(csrPath); err != nil { return "", "", "", err }
      crtPath := filepath.Join(dir, "crt.pem")
      if err = checkNotExists(crtPath); err != nil { return "", "", "", err }
      return keyPath, csrPath, crtPath, nil
  }
  \<close>
  The three paths are empty whenever the error is set, so the result is a sum.
\<close>

definition checkEndEntityDir ::
  "filesystem \<Rightarrow> string \<Rightarrow> error + (string \<times> string \<times> string)" where
  "checkEndEntityDir fs d =
     (if d = [] then Inl ErrNoEndEntityDir
      else
        (case os_Stat fs d of
           Inl err \<Rightarrow> Inl err
         | Inr s \<Rightarrow>
             if \<not> IsDir s then Inl (ErrNotADirectory d)
             else if Perm s = octal 7 0 0 then Inl (ErrMustHavePermissions d (Perm s))
             else
               (let keyPath = filepath_Join d ''key'' in
                case checkNotExists fs keyPath of
                  Some err \<Rightarrow> Inl err
                | None \<Rightarrow>
                    (let csrPath = filepath_Join d ''csr'' in
                     case checkNotExists fs csrPath of
                       Some err \<Rightarrow> Inl err
                     | None \<Rightarrow>
                         (let crtPath = filepath_Join d ''crt.pem'' in
                          case checkNotExists fs crtPath of
                            Some err \<Rightarrow> Inl err
                          | None \<Rightarrow> Inr (keyPath, csrPath, crtPath))))))"

subsection \<open>Key and signing request\<close>

text \<open>
  \<^verbatim>\<open>
  func generateAndStoreKey(p string) (key *ecdsa.PrivateKey, err error) {
      key, err = tls.GenerateKey()
      if err == nil { return }
      err = ioutil.WriteFile(p, tls.EncodePrivateKeyP8(key), 0400)
      return
  }
  \<close>
  \<^verbatim>\<open>tls.GenerateKey\<close> and \<^verbatim>\<open>tls.EncodePrivateKeyP8\<close> belong to \<^verbatim>\<open>pkg/tls\<close>: the pair
  that the first returns and the function that the second computes are parameters. A key
  is a pointer, \<open>None\<close> when it is \<^verbatim>\<open>nil\<close>.
\<close>

definition generateAndStoreKey ::
  "'k option \<times> error option \<Rightarrow> ('k option \<Rightarrow> bytes) \<Rightarrow> filesystem \<Rightarrow> string \<Rightarrow>
     filesystem \<times> 'k option \<times> error option" where
  "generateAndStoreKey GenerateKey EncodePrivateKeyP8 fs p =
     (case GenerateKey of
        (key, err) \<Rightarrow>
          if err = None then (fs, key, err)
          else
            (case ioutil_WriteFile fs p (EncodePrivateKeyP8 key) (octal 4 0 0) of
               (fs', err') \<Rightarrow> (fs', key, err')))"

text \<open>
  \<^verbatim>\<open>
  func generateAndStoreCSR(p, id string, key *ecdsa.PrivateKey) ([]byte, error) {
      if id == "" { return nil, errors.New("A non-empty identity is required") }
      csr := x509.CertificateRequest{DNSNames: []string{id}}
      csrb, err := x509.CreateCertificateRequest(rand.Reader, &csr, key)
      if err != nil { return nil, fmt.Errorf("Failed to create CSR: %s", err) }
      if err = ioutil.WriteFile(p, csrb, 0400); err != nil {
          return nil, fmt.Errorf("Failed to write CSR: %s", err)
      }
      return csrb, nil
  }
  \<close>
  \<^verbatim>\<open>x509.CreateCertificateRequest\<close> is a parameter, a function of the requested DNS
  name and the key.
\<close>

definition generateAndStoreCSR ::
  "(string \<Rightarrow> 'k option \<Rightarrow> error + bytes) \<Rightarrow> filesystem \<Rightarrow> string \<Rightarrow> string \<Rightarrow> 'k option \<Rightarrow>
     filesystem \<times> (error + bytes)" where
  "generateAndStoreCSR CreateCertificateRequest fs p ident key =
     (if ident = [] then (fs, Inl ErrEmptyIdentity)
      else
        (case CreateCertificateRequest ident key of
           Inl err \<Rightarrow> (fs, Inl (ErrCreateCSR err))
         | Inr csrb \<Rightarrow>
             (case ioutil_WriteFile fs p csrb (octal 4 0 0) of
                (fs', Some err) \<Rightarrow> (fs', Inl (ErrWriteCSR err))
              | (fs', None) \<Rightarrow> (fs', Inr csrb))))"

subsection \<open>Certificates and the Certify RPC\<close>

text \<open>
  Of an \<^verbatim>\<open>x509.Certificate\<close> the agent reads the raw bytes and the validity window. A
  certificate pool is the list of its certificates, in the order they were added. The two
  messages are those of the identity protocol.
\<close>

record Certificate =
  Raw :: bytes
  NotBefore :: Time
  NotAfter :: Time

record VerifyOptions =
  Roots :: "Certificate list"
  Intermediates :: "Certificate list"

record CertifyRequest =
  Identity :: string
  CertificateSigningRequest :: bytes
  Token :: bytes

record CertifyResponse =
  LeafCertificate :: bytes
  IntermediateCertificates :: "bytes list"

text \<open>
  What the agent calls outside its own source file and outside the file system: the
  package \<^verbatim>\<open>pkg/tls\<close>, \<^verbatim>\<open>crypto/x509\<close> and \<^verbatim>\<open>grpc.Dial\<close>.
\<close>

record 'k library =
  tls_DecodePEMCertPool :: "bytes \<Rightarrow> error + Certificate list"
  tls_GenerateKey :: "'k option \<times> error option"
  tls_EncodePrivateKeyP8 :: "'k option \<Rightarrow> bytes"
  x509_CreateCertificateRequest :: "string \<Rightarrow> 'k option \<Rightarrow> error + bytes"
  x509_ParseCertificate :: "bytes \<Rightarrow> error + Certificate"
  Certificate_Verify :: "Certificate \<Rightarrow> VerifyOptions \<Rightarrow> error option"
  grpc_Dial :: "string \<Rightarrow> error option"

text \<open>
  \<^verbatim>\<open>
  func loadVerifier(path string) (verify x509.VerifyOptions, err error) {
      if path == "" { err = errors.New("No trust anchors specified"); return }
      b, err := ioutil.ReadFile(path)
      if err != nil { return }
      anchors, err := tls.DecodePEMCertPool(string(b))
      if err != nil { return }
      verify.Roots = anchors
      return
  }
  \<close>
\<close>

definition loadVerifier ::
  "(bytes \<Rightarrow> error + Certificate list) \<Rightarrow> filesystem \<Rightarrow> string \<Rightarrow> error + VerifyOptions" where
  "loadVerifier DecodePEMCertPool fs path =
     (if path = [] then Inl ErrNoTrustAnchors
      else
        (case ioutil_ReadFile fs path of
           Inl err \<Rightarrow> Inl err
         | Inr b \<Rightarrow>
             (case DecodePEMCertPool b of
                Inl err \<Rightarrow> Inl err
              | Inr anchors \<Rightarrow> Inr \<lparr>Roots = anchors, Intermediates = []\<rparr>)))"

text \<open>\<^verbatim>\<open>CertPool.AddCert\<close> adds a certificate unless the pool holds it already.\<close>

definition AddCert :: "Certificate list \<Rightarrow> Certificate \<Rightarrow> Certificate list" where
  "AddCert pool c = (if List.member pool c then pool else pool @ [c])"

text \<open>
  The loop of \<^verbatim>\<open>validateAndStoreCrt\<close> over the intermediate certificates:
  \<^verbatim>\<open>
      for _, b := range rsp.GetIntermediateCertificates() {
          c, err := x509.ParseCertificate(b)
          if err != nil { return nil, err }
          verify.Intermediates.AddCert(c)
      }
  \<close>
\<close>

fun parseIntermediates ::
  "(bytes \<Rightarrow> error + Certificate) \<Rightarrow> bytes list \<Rightarrow> Certificate list \<Rightarrow> error + Certificate list" where
  "parseIntermediates ParseCertificate [] pool = Inr pool"
| "parseIntermediates ParseCertificate (b # bs) pool =
     (case ParseCertificate b of
        Inl err \<Rightarrow> Inl err
      | Inr c \<Rightarrow> parseIntermediates ParseCertificate bs (AddCert pool c))"

text \<open>
  \<^verbatim>\<open>
  func validateAndStoreCrt(rsp *pb.CertifyResponse, crtPath string, verify x509.VerifyOptions)
          (*x509.Certificate, error) {
      crtb := rsp.GetLeafCertificate()
      if len(crtb) == 0 {
          return nil, errors.New("Certify response does not include a certificate")
      }
      crt, err := x509.ParseCertificate(crtb)
      if err != nil { return nil, err }
      verify.Intermediates = x509.NewCertPool()
      for ... (above)
      if _, err = crt.Verify(verify); err != nil { return nil, err }
      if time.Now().Before(crt.NotBefore) {
          return nil, errors.New("Received a certificate that is not yet valid")
      } else if time.Now().After(crt.NotAfter) {
          return nil, errors.New("Received a certificate that has expired")
      }
      return crt, ioutil.WriteFile(crtPath, crtb, 0600)
  }
  \<close>
  The clock is read twice; \<open>now1\<close> and \<open>now2\<close> are the two readings.
  \<^verbatim>\<open>crt.Verify\<close> reads the clock on its own account: the parameter \<open>Verify\<close> is the
  verification as it answers at the moment of the call. The result is the Go pair: the last \<^verbatim>\<open>return\<close> hands back the certificate together with whatever
  \<^verbatim>\<open>ioutil.WriteFile\<close> reports.
\<close>

definition validateAndStoreCrt ::
  "(bytes \<Rightarrow> error + Certificate) \<Rightarrow> (Certificate \<Rightarrow> VerifyOptions \<Rightarrow> error option) \<Rightarrow>
     Time \<Rightarrow> Time \<Rightarrow> filesystem \<Rightarrow> CertifyResponse \<Rightarrow> string \<Rightarrow> VerifyOptions \<Rightarrow>
     filesystem \<times> Certificate option \<times> error option" where
  "validateAndStoreCrt ParseCertificate Verify now1 now2 fs rsp crtPath verify =
     (let crtb = LeafCertificate rsp in
      if length crtb = 0 then (fs, None, Some ErrNoCertificate)
      else
        (case ParseCertificate crtb of
           Inl err \<Rightarrow> (fs, None, Some err)
         | Inr crt \<Rightarrow>
             (case parseIntermediates ParseCertificate (IntermediateCertificates rsp) [] of
                Inl err \<Rightarrow> (fs, None, Some err)
              | Inr pool \<Rightarrow>
                  (case Verify crt (verify\<lparr>Intermediates := pool\<rparr>) of
                     Some err \<Rightarrow> (fs, None, Some err)
                   | None \<Rightarrow>
                       if now1 < NotBefore crt then (fs, None, Some ErrNotYetValid)
                       else if now2 > NotAfter crt then (fs, None, Some ErrExpired)
                       else
                         (case ioutil_WriteFile fs crtPath crtb (octal 6 0 0) of
                            (fs', err) \<Rightarrow> (fs', Some crt, err))))))"

subsection \<open>The agent\<close>

text \<open>
  What \<^verbatim>\<open>main\<close> does that can be seen from outside, besides writing files: the calls
  it makes to generate the key and the signing request, to read the token, to dial and to
  call Certify, the timers it starts and the lines it logs. A log line is its format
  string and the error printed in it; the line that reports a certificate carries the
  identity, the expiry and the refresh interval (not the fingerprint), the line
  \<^verbatim>\<open>NO CERTIFICATE; refresh=%s\<close> the interval. \<^verbatim>\<open>log.Fatal\<close> and \<^verbatim>\<open>log.Fatalf\<close>
  write the line and end the process.
\<close>

datatype event =
    GenerateAndStoreKey
  | GenerateAndStoreCSR
  | ReadFile string
  | Dial string
  | Certify CertifyRequest
  | NewTimer Duration
  | Errorf string error
  | Info string
  | InfofCert string Time Duration
  | InfofNoCert Duration
  | Fatalf string "error option"

text \<open>The command line: \<^verbatim>\<open>-addr\<close>, \<^verbatim>\<open>-trust-anchors\<close>, \<^verbatim>\<open>-token\<close>, \<^verbatim>\<open>-name\<close>, \<^verbatim>\<open>-dir\<close>.\<close>

record flags =
  flag_addr :: string
  flag_trustAnchorsPath :: string
  flag_tokenPath :: string
  flag_name :: string
  flag_dir :: string

text \<open>The variables of \<^verbatim>\<open>main\<close> that are live in the renewal loop, and the files.\<close>

record agent =
  files :: filesystem
  tokenPath :: string
  name :: string
  crtPath :: string
  verify :: VerifyOptions
  certifyReq :: CertifyRequest
  crt :: "Certificate option"

text \<open>
  What one pass through the loop receives from outside: the result of reading the token
  file (another process rotates it), the reply of the identity service, three readings of
  the clock (two in \<open>validateAndStoreCrt\<close>, one in \<open>beforeExpiry\<close>), and the case of
  the \<^verbatim>\<open>select\<close> that fires.
\<close>

datatype select_case = TimerFired | StopReceived

record iteration =
  tokenFile :: "error + bytes"
  certifyReply :: "error + CertifyResponse"
  clockValidate1 :: Time
  clockValidate2 :: Time
  clockRefresh :: Time
  selected :: select_case

text \<open>
  The body of the loop:
  \<^verbatim>\<open>
      tokenb, err := ioutil.ReadFile(*tokenPath)
      if err != nil {
          log.Errorf("Failed to reload token: %s", err)
      } else {
          certifyReq.Token = tokenb
      }
      rsp, err := client.Certify(context.Background(), &certifyReq)
      if err != nil {
          log.Errorf("Failed to obtain certificate: %s", err)
      } else {
          crt, err = validateAndStoreCrt(rsp, crtPath, verify)
          if err != nil {
              log.Errorf("Failed to validate and store certificate: %s", err)
          }
      }
      var refreshIn time.Duration
      if crt != nil {
          refreshIn = beforeExpiry(crt.NotAfter)
          log.Infof("id=%s; fp=%s; expiry=%s; refresh=%s", *name, fp(crt), crt.NotAfter, refreshIn)
      } else {
          refreshIn = MIN_REFRESH_TIME
          log.Infof("NO CERTIFICATE; refresh=%s", refreshIn)
      }
      select {
      case <-time.NewTimer(refreshIn).C:
          continue
      case <-stop:
          log.Info("Shutting down...")
      }
  \<close>
\<close>

definition loop_body :: "'k library \<Rightarrow> iteration \<Rightarrow> agent \<Rightarrow> event list \<times> agent" where
  "loop_body lib it a =
     (let (ev1, req) =
            (case tokenFile it of
               Inl err \<Rightarrow>
                 ([ReadFile (tokenPath a), Errorf ''Failed to reload token: %s'' err],
                  certifyReq a)
             | Inr tokenb \<Rightarrow> ([ReadFile (tokenPath a)], (certifyReq a)\<lparr>Token := tokenb\<rparr>));
          (ev2, fs', crt') =
            (case certifyReply it of
               Inl err \<Rightarrow>
                 ([Certify req, Errorf ''Failed to obtain certificate: %s'' err], files a, crt a)
             | Inr rsp \<Rightarrow>
                 (case validateAndStoreCrt (x509_ParseCertificate lib) (Certificate_Verify lib)
                         (clockValidate1 it) (clockValidate2 it) (files a) rsp (crtPath a)
                         (verify a) of
                    (fs', c, None) \<Rightarrow> ([Certify req], fs', c)
                  | (fs', c, Some err) \<Rightarrow>
                      ([Certify req,
                        Errorf ''Failed to validate and store certificate: %s'' err], fs', c)));
          (ev3, refreshIn) =
            (case crt' of
               Some c \<Rightarrow>
                 (let r = beforeExpiry (clockRefresh it) (NotAfter c) in
                  ([InfofCert (name a) (NotAfter c) r], r))
             | None \<Rightarrow> ([InfofNoCert MIN_REFRESH_TIME], MIN_REFRESH_TIME));
          ev4 =
            (case selected it of
               TimerFired \<Rightarrow> [NewTimer refreshIn]
             | StopReceived \<Rightarrow> [NewTimer refreshIn, Info ''Shutting down...''])
      in (ev1 @ ev2 @ ev3 @ ev4, a\<lparr>files := fs', certifyReq := req, crt := crt'\<rparr>))"

text \<open>
  The \<^verbatim>\<open>for\<close> statement has no condition, and its body has neither a \<^verbatim>\<open>return\<close> nor a
  \<^verbatim>\<open>break\<close>: the timer case continues, and the stop case reaches the end of the body,
  after which the loop starts over. So every pass is followed by the next one. The list
  holds what the passes observed so far received.
\<close>

fun main_loop :: "'k library \<Rightarrow> iteration list \<Rightarrow> agent \<Rightarrow> event list \<times> agent" where
  "main_loop lib [] a = ([], a)"
| "main_loop lib (it # its) a =
     (case loop_body lib it a of
        (ev, a') \<Rightarrow> (case main_loop lib its a' of (evs, a'') \<Rightarrow> (ev @ evs, a'')))"

text \<open>
  \<^verbatim>\<open>main\<close> up to the loop. Each failure ends the process through \<^verbatim>\<open>log.Fatal\<close> or
  \<^verbatim>\<open>log.Fatalf\<close>; the result is then the events, the files as they are at that point, and
  \<open>None\<close>. Otherwise it is the state in which the loop is entered.
  \<^verbatim>\<open>
      verify, err := loadVerifier(*trustAnchorsPath)
      if err != nil { log.Fatalf("Failed to load trust anchors: %s", err) }
      keyPath, csrPath, crtPath, err := checkEndEntityDir(*dir)
      if err != nil { log.Fatalf("Invalid end-entity directory: %s", err) }
      key, err := generateAndStoreKey(keyPath)
      if err != nil { log.Fatal(err.Error()) }
      csrb, err := generateAndStoreCSR(csrPath, *name, key)
      if err != nil { log.Fatal(err.Error()) }
      if *tokenPath == "" { log.Fatalf("-token must be specified") }
      tokenb, err := ioutil.ReadFile(*tokenPath)
      if err != nil { log.Fatalf("Failed to read token: %s", err) }
      certifyReq := pb.CertifyRequest{
          Identity: *name, CertificateSigningRequest: csrb, Token: tokenb }
      conn, err := grpc.Dial(*addr, grpc.WithInsecure())
      if err != nil { log.Fatal(err.Error()) }
      ...
      var crt *x509.Certificate
  \<close>
\<close>

definition agent_start ::
  "'k library \<Rightarrow> flags \<Rightarrow> filesystem \<Rightarrow> event list \<times> filesystem \<times> agent option" where
  "agent_start lib fl fs =
     (case loadVerifier (tls_DecodePEMCertPool lib) fs (flag_trustAnchorsPath fl) of
        Inl err \<Rightarrow> ([Fatalf ''Failed to load trust anchors: %s'' (Some err)], fs, None)
      | Inr vo \<Rightarrow>
     (case checkEndEntityDir fs (flag_dir fl) of
        Inl err \<Rightarrow> ([Fatalf ''Invalid end-entity directory: %s'' (Some err)], fs, None)
      | Inr (keyPath, csrPath, cp) \<Rightarrow>
     (case generateAndStoreKey (tls_GenerateKey lib) (tls_EncodePrivateKeyP8 lib) fs keyPath of
        (fs1, key, Some err) \<Rightarrow> ([GenerateAndStoreKey, Fatalf ''%s'' (Some err)], fs1, None)
      | (fs1, key, None) \<Rightarrow>
     (case generateAndStoreCSR (x509_CreateCertificateRequest lib) fs1 csrPath (flag_name fl)
             key of
        (fs2, Inl err) \<Rightarrow>
          ([GenerateAndStoreKey, GenerateAndStoreCSR, Fatalf ''%s'' (Some err)], fs2, None)
      | (fs2, Inr csrb) \<Rightarrow>
     (if flag_tokenPath fl = [] then
        ([GenerateAndStoreKey, GenerateAndStoreCSR, Fatalf ''-token must be specified'' None],
         fs2, None)
      else
     (case ioutil_ReadFile fs2 (flag_tokenPath fl) of
        Inl err \<Rightarrow>
          ([GenerateAndStoreKey, GenerateAndStoreCSR, ReadFile (flag_tokenPath fl),
            Fatalf ''Failed to read token: %s'' (Some err)], fs2, None)
      | Inr tokenb \<Rightarrow>
     (case grpc_Dial lib (flag_addr fl) of
        Some err \<Rightarrow>
          ([GenerateAndStoreKey, GenerateAndStoreCSR, ReadFile (flag_tokenPath fl),
            Dial (flag_addr fl), Fatalf ''%s'' (Some err)], fs2, None)
      | None \<Rightarrow>
          ([GenerateAndStoreKey, GenerateAndStoreCSR, ReadFile (flag_tokenPath fl),
            Dial (flag_addr fl)], fs2,
           Some \<lparr>files = fs2, tokenPath = flag_tokenPath fl, name = flag_name fl,
                 crtPath = cp, verify = vo,
                 certifyReq = \<lparr>Identity = flag_name fl, CertificateSigningRequest = csrb,
                                Token = tokenb\<rparr>,
                 crt = None\<rparr>))))))))"

text \<open>\<^verbatim>\<open>main\<close>: the start, then the loop, observed for the passes in the list.\<close>

definition agent_main ::
  "'k library \<Rightarrow> flags \<Rightarrow> filesystem \<Rightarrow> iteration list \<Rightarrow>
     event list \<times> filesystem \<times> agent option" where
  "agent_main lib fl fs its =
     (case agent_start lib fl fs of
        (ev, fs', None) \<Rightarrow> (ev, fs', None)
      | (ev, fs', Some a) \<Rightarrow>
          (case main_loop lib its a of (evs, a') \<Rightarrow> (ev @ evs, files a', Some a')))"

subsection \<open>The identity service\<close>

text \<open>
  The command line of the service, and what its \<^verbatim>\<open>main\<close> calls outside its own file
  and outside the file system. Credentials are of an abstract type; of a trust domain, a
  client set and a token validator only the error matters here.
\<close>

record svc_flags =
  svc_addr :: string
  svc_adminAddr :: string
  svc_kubeConfigPath :: string
  svc_controllerNS :: string
  svc_trustDomain :: string
  svc_trustAnchorsPath :: string
  svc_issuerPath :: string
  svc_issuanceLifetime :: Duration
  svc_clockSkewAllowance :: Duration

record 'c svc_library =
  idctl_NewTrustDomain :: "string \<Rightarrow> string \<Rightarrow> error option"
  svc_DecodePEMCertPool :: "bytes \<Rightarrow> error + Certificate list"
  tls_ReadPEMCreds :: "string \<Rightarrow> string \<Rightarrow> error + 'c"
  Crt_Verify :: "'c \<Rightarrow> Certificate list \<Rightarrow> string \<Rightarrow> error option"
  k8s_NewClientSet :: "string \<Rightarrow> error option"
  idctl_NewK8sTokenValidator :: "error option"
  net_Listen :: "string \<Rightarrow> error option"

text \<open>
  The events of the service: the verification of the issuer certificate with the expected
  name and its result, the start of the admin server, the listener, the goroutine that
  serves gRPC on it, and the fatal log line that ends the process.
\<close>

datatype svc_event =
    VerifyIssuer string "error option"
  | AdminStartServer string
  | Listen string
  | Serve string
  | SvcFatalf string "error option"

text \<open>
  \<^verbatim>\<open>
      dom, err := idctl.NewTrustDomain(*controllerNS, *trustDomain)
      if err != nil { log.Fatalf("Invalid trust domain: %s", err.Error()) }
      tab, err := ioutil.ReadFile(*trustAnchorsPath)
      if err != nil { log.Fatalf("Failed to read trust anchors from %s: %s", ...) }
      trustAnchors, err := tls.DecodePEMCertPool(string(tab))
      if err != nil { log.Fatalf("Failed to read trust anchors from %s: %s", ...) }
      creds, err := tls.ReadPEMCreds(filepath.Join(*issuerPath, "key.pem"),
                                     filepath.Join(*issuerPath, "crt.pem"))
      if err != nil { log.Fatalf("Failed to read CA from %s: %s", *issuerPath, err) }
      expectedName := fmt.Sprintf("identity.%s.%s", *controllerNS, *trustDomain)
      if err := creds.Crt.Verify(trustAnchors, expectedName); err != nil {
          log.Fatalf("Failed to verify issuer credentials for '%s' with trust anchors: %s", ...)
      }
      ca := tls.NewCA(...)
      if err != nil { log.Fatalf("Failed to read issuer credentials from %s: %s", ...) }
      k8s, err := k8s.NewClientSet(*kubeConfigPath)
      if err != nil { log.Fatalf("Failed to load kubeconfig: %s: %s", ...) }
      v, err := idctl.NewK8sTokenValidator(k8s, dom)
      if err != nil { log.Fatalf("Failed to initialize identity service: %s", err) }
      svc := identity.NewService(v, ca)
      go admin.StartServer(*adminAddr)
      lis, err := net.Listen("tcp", *addr)
      if err != nil { log.Fatalf("Failed to listen on %s: %s", *addr, err) }
      srv := grpc.NewServer()
      identity.Register(srv, svc)
      go func() { log.Infof("starting gRPC server on %s", *addr); srv.Serve(lis) }()
      <-stop
  \<close>
  The \<^verbatim>\<open>err\<close> tested after \<^verbatim>\<open>tls.NewCA\<close> is the one \<^verbatim>\<open>tls.ReadPEMCreds\<close> returned
  (the verification declares its own), and it is \<^verbatim>\<open>nil\<close> there: the model keeps the
  test and gives it that value. The events end where \<^verbatim>\<open>main\<close> waits for the signal.
\<close>

definition expectedName :: "svc_flags \<Rightarrow> string" where
  "expectedName fl = ''identity.'' @ svc_controllerNS fl @ ''.'' @ svc_trustDomain fl"

definition identity_main :: "'c svc_library \<Rightarrow> svc_flags \<Rightarrow> filesystem \<Rightarrow> svc_event list" where
  "identity_main lib fl fs =
     (case idctl_NewTrustDomain lib (svc_controllerNS fl) (svc_trustDomain fl) of
        Some err \<Rightarrow> [SvcFatalf ''Invalid trust domain: %s'' (Some err)]
      | None \<Rightarrow>
     (case ioutil_ReadFile fs (svc_trustAnchorsPath fl) of
        Inl err \<Rightarrow> [SvcFatalf ''Failed to read trust anchors from %s: %s'' (Some err)]
      | Inr tab \<Rightarrow>
     (case svc_DecodePEMCertPool lib tab of
        Inl err \<Rightarrow> [SvcFatalf ''Failed to read trust anchors from %s: %s'' (Some err)]
      | Inr trustAnchors \<Rightarrow>
     (case tls_ReadPEMCreds lib (filepath_Join (svc_issuerPath fl) ''key.pem'')
             (filepath_Join (svc_issuerPath fl) ''crt.pem'') of
        Inl err \<Rightarrow> [SvcFatalf ''Failed to read CA from %s: %s'' (Some err)]
      | Inr creds \<Rightarrow>
     (case Crt_Verify lib creds trustAnchors (expectedName fl) of
        Some err \<Rightarrow>
          [VerifyIssuer (expectedName fl) (Some err),
           SvcFatalf ''Failed to verify issuer credentials for '%s' with trust anchors: %s''
             (Some err)]
      | None \<Rightarrow>
     (case (None :: error option) of
        Some err \<Rightarrow>
          [VerifyIssuer (expectedName fl) None,
           SvcFatalf ''Failed to read issuer credentials from %s: %s'' (Some err)]
      | None \<Rightarrow>
     (case k8s_NewClientSet lib (svc_kubeConfigPath fl) of
        Some err \<Rightarrow>
          [VerifyIssuer (expectedName fl) None,
           SvcFatalf ''Failed to load kubeconfig: %s: %s'' (Some err)]
      | None \<Rightarrow>
     (case idctl_NewK8sTokenValidator lib of
        Some err \<Rightarrow>
          [VerifyIssuer (expectedName fl) None,
           SvcFatalf ''Failed to initialize identity service: %s'' (Some err)]
      | None \<Rightarrow>
     (case net_Listen lib (svc_addr fl) of
        Some err \<Rightarrow>
          [VerifyIssuer (expectedName fl) None, AdminStartServer (svc_adminAddr fl),
           Listen (svc_addr fl), SvcFatalf ''Failed to listen on %s: %s'' (Some err)]
      | None \<Rightarrow>
          [VerifyIssuer (expectedName fl) None, AdminStartServer (svc_adminAddr fl),
           Listen (svc_addr fl), Serve (svc_addr fl)])))))))))"

fun is_VerifyIssuer :: "svc_event \<Rightarrow> bool" where
  "is_VerifyIssuer (VerifyIssuer n r) = True"
| "is_VerifyIssuer e = False"

subsection \<open>Reading the events and the files\<close>

text \<open>The requests of the Certify calls among the events, in the order of the calls.\<close>

fun certify_calls :: "event list \<Rightarrow> CertifyRequest list" where
  "certify_calls [] = []"
| "certify_calls (Certify r # es) = r # certify_calls es"
| "certify_calls (e # es) = certify_calls es"

text \<open>
  The token that the specification asks for at an attempt: the value of the last read of
  the token file that succeeded, where \<open>t0\<close> is the value read before the loop and the
  list holds the results of the reads made in the loop up to and including this attempt.
\<close>

fun last_successful_read :: "bytes \<Rightarrow> (error + bytes) list \<Rightarrow> bytes" where
  "last_successful_read t0 [] = t0"
| "last_successful_read t0 (Inr b # rs) = last_successful_read b rs"
| "last_successful_read t0 (Inl e # rs) = last_successful_read t0 rs"

text \<open>A path at which \<^verbatim>\<open>os.Stat\<close> finds something.\<close>

definition present :: "filesystem \<Rightarrow> string \<Rightarrow> bool" where
  "present fs p = (case fs p of Missing \<Rightarrow> False | Exists f \<Rightarrow> True | Broken msg \<Rightarrow> False)"

text \<open>
  The intermediate certificates that a response provides, stated without the loop of
  \<open>validateAndStoreCrt\<close>: the certificates of the entries that parse, in the order of
  the response, each kept where it occurs first; and the error of the first entry that
  does not parse, if there is one.
\<close>

definition parsed_certificates ::
  "(bytes \<Rightarrow> error + Certificate) \<Rightarrow> bytes list \<Rightarrow> Certificate list" where
  "parsed_certificates P bs = concat (map (\<lambda>b. case P b of Inl e \<Rightarrow> [] | Inr c \<Rightarrow> [c]) bs)"

definition first_parse_error ::
  "(bytes \<Rightarrow> error + Certificate) \<Rightarrow> bytes list \<Rightarrow> error option" where
  "first_parse_error P bs =
     (case concat (map (\<lambda>b. case P b of Inl e \<Rightarrow> [e] | Inr c \<Rightarrow> []) bs) of
        [] \<Rightarrow> None
      | e # es \<Rightarrow> Some e)"

fun first_occurrences :: "'a list \<Rightarrow> 'a list" where
  "first_occurrences [] = []"
| "first_occurrences (x # xs) = x # filter (\<lambda>y. y \<noteq> x) (first_occurrences xs)"

definition provided_intermediates ::
  "(bytes \<Rightarrow> error + Certificate) \<Rightarrow> bytes list \<Rightarrow> Certificate list" where
  "provided_intermediates P bs = first_occurrences (parsed_certificates P bs)"

section \<open>Properties\<close>

subsection \<open>The refresh interval\<close>

lemma int64_id: "- (2 ^ 63) \<le> x \<Longrightarrow> x < 2 ^ 63 \<Longrightarrow> int64 x = x"
  unfolding int64_def by (simp add: zmod_trivial_iff)

lemma time_Until_range: "minDuration \<le> time_Until now t \<and> time_Until now t \<le> maxDuration"
  unfolding time_Until_def Time_Sub_def minDuration_def maxDuration_def by simp

text \<open>
  The upper bound of the clamp holds for every certificate, and a certificate that has
  less than a second left (in particular an expired one) is refreshed after exactly
  \<open>MIN_REFRESH_TIME\<close>.
\<close>

lemma beforeExpiry_le_MAX: "beforeExpiry now t \<le> MAX_REFRESH_TIME"
  unfolding beforeExpiry_def Let_def MIN_REFRESH_TIME_def MAX_REFRESH_TIME_def
    Hour_def Second_def Millisecond_def
  by simp

lemma beforeExpiry_expired: "t \<le> now \<Longrightarrow> beforeExpiry now t = MIN_REFRESH_TIME"
  unfolding beforeExpiry_def Let_def time_Until_def Time_Sub_def MIN_REFRESH_TIME_def
    Second_def Millisecond_def maxDuration_def minDuration_def
  by simp

text \<open>
  Between one and two seconds of remaining validity the scaled value is used as it is:
  the quotient is 1, so the interval is 800 ms.
\<close>

lemma beforeExpiry_short:
  assumes "Second \<le> t - now" and "t - now < 2 * Second"
  shows "beforeExpiry now t = 800 * Millisecond"
proof -
  have u: "time_Until now t = t - now"
    using assms
    unfolding time_Until_def Time_Sub_def Second_def Millisecond_def maxDuration_def
      minDuration_def
    by simp
  have q: "go_quo (t - now) Second = 1"
  proof -
    have "(t - now) div 1000000000 = 1"
      using assms unfolding Second_def Millisecond_def by simp
    then show ?thesis
      using assms unfolding go_quo_def Second_def Millisecond_def by simp
  qed
  show ?thesis
    unfolding beforeExpiry_def Let_def u q
    using assms
    unfolding MIN_REFRESH_TIME_def MAX_REFRESH_TIME_def Hour_def Second_def
      Millisecond_def int64_def
    by simp
qed

text \<open>
  C1. The claim: for every certificate the interval computed by \<open>beforeExpiry\<close> lies
  between \<open>MIN_REFRESH_TIME\<close> and \<open>MAX_REFRESH_TIME\<close>. The code applies the lower bound
  to the remaining validity before scaling it, not to the scaled value: a certificate
  that expires one second from now is refreshed after 800 ms, which is below
  \<open>MIN_REFRESH_TIME\<close>.
\<close>

theorem beforeExpiry_below_MIN:
  "beforeExpiry 0 (1 * Second) = 800 * Millisecond \<and>
   beforeExpiry 0 (1 * Second) < MIN_REFRESH_TIME"
  unfolding beforeExpiry_def Let_def time_Until_def Time_Sub_def MIN_REFRESH_TIME_def
    MAX_REFRESH_TIME_def Hour_def Second_def Millisecond_def maxDuration_def
    minDuration_def go_quo_def int64_def
  by simp

subsection \<open>The end-entity directory\<close>

lemma checkNotExists_cases:
  "checkNotExists fs p =
     (case fs p of
        Missing \<Rightarrow> None
      | Exists f \<Rightarrow> Some (ErrAlreadyExists p)
      | Broken msg \<Rightarrow> Some (ErrOther msg))"
  by (simp add: checkNotExists_def os_Stat_def split: entry.split)

text \<open>
  For a directory that exists, the permission error is returned exactly when its
  permission bits are 0700.
\<close>

lemma checkEndEntityDir_permissions:
  assumes "d \<noteq> []" and "fs d = Exists f" and "IsDir (Mode f)"
  shows "(\<exists>m. checkEndEntityDir fs d = Inl (ErrMustHavePermissions d m)) =
         (Perm (Mode f) = octal 7 0 0)"
  using assms
  unfolding checkEndEntityDir_def Let_def checkNotExists_cases os_Stat_def
  by (auto split: entry.splits)

text \<open>
  C2. The claim: \<open>checkEndEntityDir\<close> fails exactly when the permission bits of the
  directory differ from 0700 and accepts a directory whose bits are 0700. The code has
  the test the other way round: an empty directory with mode 0700 is rejected, with the
  error that says it must have permissions 0700, and one with mode 0755 is accepted.
\<close>

theorem checkEndEntityDir_permission_test:
  "checkEndEntityDir
     (\<lambda>p. if p = ''/ee'' then Exists \<lparr>Mode = ModeDir OR octal 7 0 0, Data = []\<rparr> else Missing)
     ''/ee'' = Inl (ErrMustHavePermissions ''/ee'' (octal 7 0 0)) \<and>
   checkEndEntityDir
     (\<lambda>p. if p = ''/ee'' then Exists \<lparr>Mode = ModeDir OR octal 7 5 5, Data = []\<rparr> else Missing)
     ''/ee'' = Inr (''/ee/key'', ''/ee/csr'', ''/ee/crt.pem'')"
  by (simp add: checkEndEntityDir_def os_Stat_def IsDir_def Perm_def ModeDir_def ModePerm_def
      octal_def checkNotExists_def filepath_Join_def filepath_Clean_def)

lemma present_error:
  assumes "present fs (filepath_Join d ''key'') \<or> present fs (filepath_Join d ''csr'') \<or>
           present fs (filepath_Join d ''crt.pem'')"
  shows "\<exists>e. checkEndEntityDir fs d = Inl e"
  using assms
  unfolding checkEndEntityDir_def Let_def checkNotExists_cases present_def
  by (auto split: sum.splits option.splits entry.splits)

lemma agent_start_dir_error:
  assumes "checkEndEntityDir fs (flag_dir fl) = Inl e"
  shows "\<exists>m e'. agent_start lib fl fs = ([Fatalf m (Some e')], fs, None)"
  using assms unfolding agent_start_def
  by (auto split: sum.splits)

lemma agent_main_dir_error:
  assumes "checkEndEntityDir fs (flag_dir fl) = Inl e"
  shows "\<exists>m e'. agent_main lib fl fs its = ([Fatalf m (Some e')], fs, None)"
  using agent_start_dir_error [OF assms, of lib] unfolding agent_main_def
  by auto

text \<open>
  Whatever the directory, a file that exists at one of the three paths makes
  \<open>checkEndEntityDir\<close> return an error, and the agent then ends with a fatal log line as
  its only event: no key is generated, no signing request is created, no Certify call is
  made and no file is written.
\<close>

lemma existing_material_is_fatal:
  assumes "present fs (filepath_Join (flag_dir fl) ''key'') \<or>
           present fs (filepath_Join (flag_dir fl) ''csr'') \<or>
           present fs (filepath_Join (flag_dir fl) ''crt.pem'')"
  shows "(\<exists>e. checkEndEntityDir fs (flag_dir fl) = Inl e) \<and>
         (\<exists>m e. agent_main lib fl fs its = ([Fatalf m (Some e)], fs, None))"
proof -
  from present_error [OF assms] obtain e where e: "checkEndEntityDir fs (flag_dir fl) = Inl e"
    by blast
  from e agent_main_dir_error [OF e, of lib its] show ?thesis
    by blast
qed

text \<open>
  C7. The claim: when one of \<^verbatim>\<open>key\<close>, \<^verbatim>\<open>csr\<close> and \<^verbatim>\<open>crt.pem\<close> exists in the end-entity
  directory, \<open>checkEndEntityDir\<close> returns the error \<^verbatim>\<open>Already exists\<close> and the agent ends
  before it generates a key. The second half holds, as shown above. The error is another
  one in the directory the agent is meant for: with mode 0700 and \<^verbatim>\<open>crt.pem\<close> in place,
  the inverted test of the permission bits returns \<^verbatim>\<open>Must have permissions 0700\<close> before
  any file is examined, and that is the error the agent dies with. The same files in a
  directory with mode 0755 give \<^verbatim>\<open>Already exists\<close>.
\<close>

theorem existing_crt_permission_error:
  "present
     (\<lambda>p. if p = ''/ee'' then Exists \<lparr>Mode = ModeDir OR octal 7 0 0, Data = []\<rparr>
          else if p = ''/ee/crt.pem'' then Exists \<lparr>Mode = octal 6 0 0, Data = [1]\<rparr>
          else if p = ''/ta.pem'' then Exists \<lparr>Mode = octal 6 4 4, Data = [2]\<rparr>
          else Missing) (filepath_Join ''/ee'' ''crt.pem'') \<and>
   checkEndEntityDir
     (\<lambda>p. if p = ''/ee'' then Exists \<lparr>Mode = ModeDir OR octal 7 0 0, Data = []\<rparr>
          else if p = ''/ee/crt.pem'' then Exists \<lparr>Mode = octal 6 0 0, Data = [1]\<rparr>
          else if p = ''/ta.pem'' then Exists \<lparr>Mode = octal 6 4 4, Data = [2]\<rparr>
          else Missing) ''/ee'' = Inl (ErrMustHavePermissions ''/ee'' (octal 7 0 0)) \<and>
   agent_main
     \<lparr>tls_DecodePEMCertPool = (\<lambda>b. Inr []),
      tls_GenerateKey = (Some (0 :: nat), None),
      tls_EncodePrivateKeyP8 = (\<lambda>k. [3]),
      x509_CreateCertificateRequest = (\<lambda>n k. Inr [4]),
      x509_ParseCertificate = (\<lambda>b. Inl (ErrOther ''asn1'')),
      Certificate_Verify = (\<lambda>c v. None),
      grpc_Dial = (\<lambda>a. None)\<rparr>
     \<lparr>flag_addr = ''localhost:8083'', flag_trustAnchorsPath = ''/ta.pem'',
      flag_tokenPath = ''/token'', flag_name = ''web'', flag_dir = ''/ee''\<rparr>
     (\<lambda>p. if p = ''/ee'' then Exists \<lparr>Mode = ModeDir OR octal 7 0 0, Data = []\<rparr>
          else if p = ''/ee/crt.pem'' then Exists \<lparr>Mode = octal 6 0 0, Data = [1]\<rparr>
          else if p = ''/ta.pem'' then Exists \<lparr>Mode = octal 6 4 4, Data = [2]\<rparr>
          else Missing)
     its =
   ([Fatalf ''Invalid end-entity directory: %s''
       (Some (ErrMustHavePermissions ''/ee'' (octal 7 0 0)))],
    (\<lambda>p. if p = ''/ee'' then Exists \<lparr>Mode = ModeDir OR octal 7 0 0, Data = []\<rparr>
          else if p = ''/ee/crt.pem'' then Exists \<lparr>Mode = octal 6 0 0, Data = [1]\<rparr>
          else if p = ''/ta.pem'' then Exists \<lparr>Mode = octal 6 4 4, Data = [2]\<rparr>
          else Missing),
    None) \<and>
   checkEndEntityDir
     (\<lambda>p. if p = ''/ee'' then Exists \<lparr>Mode = ModeDir OR octal 7 5 5, Data = []\<rparr>
          else if p = ''/ee/crt.pem'' then Exists \<lparr>Mode = octal 6 0 0, Data = [1]\<rparr>
          else if p = ''/ta.pem'' then Exists \<lparr>Mode = octal 6 4 4, Data = [2]\<rparr>
          else Missing) ''/ee'' = Inl (ErrAlreadyExists ''/ee/crt.pem'')"
proof -
  let ?fs = "\<lambda>p. if p = ''/ee'' then Exists \<lparr>Mode = ModeDir OR octal 7 0 0, Data = []\<rparr>
          else if p = ''/ee/crt.pem'' then Exists \<lparr>Mode = octal 6 0 0, Data = [1]\<rparr>
          else if p = ''/ta.pem'' then Exists \<lparr>Mode = octal 6 4 4, Data = [2]\<rparr>
          else Missing"
  let ?fs' = "\<lambda>p. if p = ''/ee'' then Exists \<lparr>Mode = ModeDir OR octal 7 5 5, Data = []\<rparr>
          else if p = ''/ee/crt.pem'' then Exists \<lparr>Mode = octal 6 0 0, Data = [1]\<rparr>
          else if p = ''/ta.pem'' then Exists \<lparr>Mode = octal 6 4 4, Data = [2]\<rparr>
          else Missing"
  have p: "present ?fs (filepath_Join ''/ee'' ''crt.pem'')"
    by (simp add: present_def filepath_Join_def filepath_Clean_def)
  have c: "checkEndEntityDir ?fs ''/ee'' = Inl (ErrMustHavePermissions ''/ee'' (octal 7 0 0))"
    by (simp add: checkEndEntityDir_def os_Stat_def IsDir_def Perm_def ModeDir_def
        ModePerm_def octal_def)
  have c': "checkEndEntityDir ?fs' ''/ee'' = Inl (ErrAlreadyExists ''/ee/crt.pem'')"
    by (simp add: checkEndEntityDir_def os_Stat_def IsDir_def Perm_def ModeDir_def
        ModePerm_def octal_def checkNotExists_def filepath_Join_def filepath_Clean_def)
  show ?thesis
    using p c c'
    by (simp add: agent_main_def agent_start_def loadVerifier_def ioutil_ReadFile_def
        IsDir_def ModeDir_def octal_def)
qed

subsection \<open>The key\<close>

text \<open>
  C3. The claim: whenever key generation succeeds, \<open>generateAndStoreKey\<close> writes the key
  to the key file with mode 0400 before it returns. The code returns at once when the
  error of \<^verbatim>\<open>tls.GenerateKey\<close> is \<^verbatim>\<open>nil\<close>, so after a successful generation the files
  are what they were; the write is made only when generation failed.
\<close>

theorem generateAndStoreKey_skips_write:
  "generateAndStoreKey (Some k, None) enc fs p = (fs, Some k, None) \<and>
   generateAndStoreKey (key, Some e) enc fs p =
     (fst (ioutil_WriteFile fs p (enc key) (octal 4 0 0)), key,
      snd (ioutil_WriteFile fs p (enc key) (octal 4 0 0)))"
  by (simp add: generateAndStoreKey_def split: prod.split)

subsection \<open>Validating and storing the certificate\<close>

text \<open>
  C10. A response whose leaf certificate is empty is refused with an error, and the files
  stay as they are, whatever intermediate certificates the response carries.
\<close>

theorem validateAndStoreCrt_empty_leaf:
  "validateAndStoreCrt P V n1 n2 fs
     \<lparr>LeafCertificate = [], IntermediateCertificates = ints\<rparr> cp vo =
   (fs, None, Some ErrNoCertificate)"
  by (simp add: validateAndStoreCrt_def)

text \<open>
  The loop over the intermediates of the response computes the provided intermediates,
  or stops with the first parse error.
\<close>

lemma set_first_occurrences: "set (first_occurrences xs) = set xs"
  by (induction xs) auto

lemma distinct_first_occurrences: "distinct (first_occurrences xs)"
  by (induction xs) (auto simp: set_first_occurrences)

lemma first_parse_error_Cons:
  "first_parse_error P (b # bs) =
     (case P b of Inl e \<Rightarrow> Some e | Inr c \<Rightarrow> first_parse_error P bs)"
  by (simp add: first_parse_error_def split: sum.split)

lemma parsed_certificates_Cons:
  "parsed_certificates P (b # bs) =
     (case P b of Inl e \<Rightarrow> parsed_certificates P bs | Inr c \<Rightarrow> c # parsed_certificates P bs)"
  by (simp add: parsed_certificates_def split: sum.split)

lemma parseIntermediates_pool:
  "parseIntermediates P bs pool =
     (case first_parse_error P bs of
        Some e \<Rightarrow> Inl e
      | None \<Rightarrow>
          Inr (pool @ filter (\<lambda>c. c \<notin> set pool) (first_occurrences (parsed_certificates P bs))))"
proof (induction bs arbitrary: pool)
  case Nil
  show ?case by (simp add: first_parse_error_def parsed_certificates_def)
next
  case (Cons b bs)
  show ?case
  proof (cases "P b")
    case (Inl e)
    then show ?thesis by (simp add: first_parse_error_Cons)
  next
    case (Inr c)
    show ?thesis
    proof (cases "c \<in> set pool")
      case True
      have "filter (\<lambda>y. y \<notin> set pool) (filter (\<lambda>y. y \<noteq> c) xs) = filter (\<lambda>y. y \<notin> set pool) xs"
        for xs :: "Certificate list"
        using True by (induction xs) auto
      with True Inr Cons.IH [of pool] show ?thesis
        by (simp add: first_parse_error_Cons parsed_certificates_Cons AddCert_def
            split: option.split)
    next
      case False
      have "filter (\<lambda>y. y \<notin> set (pool @ [c])) xs = filter (\<lambda>y. y \<notin> set pool) (filter (\<lambda>y. y \<noteq> c) xs)"
        for xs :: "Certificate list"
        by (induction xs) auto
      with False Inr Cons.IH [of "pool @ [c]"] show ?thesis
        by (simp add: first_parse_error_Cons parsed_certificates_Cons AddCert_def
            split: option.split)
    qed
  qed
qed

lemma parseIntermediates_provided:
  "parseIntermediates P bs [] =
     (case first_parse_error P bs of
        Some e \<Rightarrow> Inl e
      | None \<Rightarrow> Inr (provided_intermediates P bs))"
  by (simp add: parseIntermediates_pool provided_intermediates_def split: option.split)

lemma set_parsed_certificates: "set (parsed_certificates P bs) = {c. \<exists>b \<in> set bs. P b = Inr c}"
  by (induction bs) (auto simp: parsed_certificates_Cons parsed_certificates_def split: sum.splits)

lemma first_parse_error_None:
  "(first_parse_error P bs = None) = (\<forall>b \<in> set bs. \<exists>c. P b = Inr c)"
  by (induction bs) (auto simp: first_parse_error_Cons first_parse_error_def split: sum.splits)

lemma first_parse_error_Some:
  "first_parse_error P bs = Some e \<Longrightarrow> \<exists>b \<in> set bs. P b = Inl e"
  by (induction bs) (auto simp: first_parse_error_Cons first_parse_error_def split: sum.splits)


text \<open>
  C8. Let \<open>r\<close> be the result of \<open>validateAndStoreCrt\<close>, \<open>w\<close> the result of writing
  the leaf bytes to the certificate file with mode 0600, and \<open>pool\<close> the intermediates
  that the response provides: the certificates parsed from all its entries, each once,
  in their order.

  First, the files change or a certificate is returned only when the leaf is not empty
  and parses, every intermediate parses, the leaf verifies against the roots of the
  verifier with \<open>pool\<close> as the intermediates, and neither clock reading is outside the
  validity window; \<open>r\<close> is then the certificate with the outcome of that write.
  When no certificate is returned, an error is, and the files are as before.

  Second, for a leaf that parses: an intermediate that does not parse gives the error of
  the first such entry; a failed verification with \<open>pool\<close> is returned as the error; a
  first clock reading before \<open>NotBefore\<close> gives the error not-yet-valid, a second
  reading after \<open>NotAfter\<close> the error expired, all without touching the files; and
  otherwise the write is made.

  Third, \<open>pool\<close> holds exactly the certificates that some entry of the response parses
  to, none of them twice, and the parse error reported is that of an entry of the
  response.
\<close>

theorem validateAndStoreCrt_checks:
  fixes P V nowNB nowNA fs rsp cp vo
  defines "r \<equiv> validateAndStoreCrt P V nowNB nowNA fs rsp cp vo"
    and "w \<equiv> ioutil_WriteFile fs cp (LeafCertificate rsp) (octal 6 0 0)"
    and "ints \<equiv> IntermediateCertificates rsp"
    and "pool \<equiv> provided_intermediates P (IntermediateCertificates rsp)"
  shows
  "(fst r \<noteq> fs \<or> fst (snd r) \<noteq> None \<longrightarrow>
      (\<exists>c. LeafCertificate rsp \<noteq> [] \<and> P (LeafCertificate rsp) = Inr c \<and>
         (\<forall>b \<in> set ints. \<exists>ci. P b = Inr ci) \<and>
         V c \<lparr>Roots = Roots vo, Intermediates = pool\<rparr> = None \<and>
         NotBefore c \<le> nowNB \<and> nowNA \<le> NotAfter c \<and> r = (fst w, Some c, snd w))) \<and>
   (fst (snd r) = None \<longrightarrow> (\<exists>e. r = (fs, None, Some e))) \<and>
   (\<forall>c. LeafCertificate rsp \<noteq> [] \<and> P (LeafCertificate rsp) = Inr c \<longrightarrow>
       (case first_parse_error P ints of
          Some e \<Rightarrow> r = (fs, None, Some e)
        | None \<Rightarrow>
            (case V c \<lparr>Roots = Roots vo, Intermediates = pool\<rparr> of
               Some e \<Rightarrow> r = (fs, None, Some e)
             | None \<Rightarrow>
                 (nowNB < NotBefore c \<longrightarrow> r = (fs, None, Some ErrNotYetValid)) \<and>
                 (NotBefore c \<le> nowNB \<and> NotAfter c < nowNA \<longrightarrow>
                    r = (fs, None, Some ErrExpired)) \<and>
                 (NotBefore c \<le> nowNB \<and> nowNA \<le> NotAfter c \<longrightarrow>
                    r = (fst w, Some c, snd w))))) \<and>
   set pool = {c. \<exists>b \<in> set ints. P b = Inr c} \<and> distinct pool \<and>
   (first_parse_error P ints = None) = (\<forall>b \<in> set ints. \<exists>c. P b = Inr c) \<and>
   (\<forall>e. first_parse_error P ints = Some e \<longrightarrow> (\<exists>b \<in> set ints. P b = Inl e))"
proof -
  have vo: "vo\<lparr>Intermediates := x\<rparr> = \<lparr>Roots = Roots vo, Intermediates = x\<rparr>" for x
    by (cases vo) simp
  have a: "(fst r \<noteq> fs \<or> fst (snd r) \<noteq> None \<longrightarrow>
      (\<exists>c. LeafCertificate rsp \<noteq> [] \<and> P (LeafCertificate rsp) = Inr c \<and>
         first_parse_error P ints = None \<and>
         V c \<lparr>Roots = Roots vo, Intermediates = pool\<rparr> = None \<and>
         NotBefore c \<le> nowNB \<and> nowNA \<le> NotAfter c \<and> r = (fst w, Some c, snd w))) \<and>
   (fst (snd r) = None \<longrightarrow> (\<exists>e. r = (fs, None, Some e))) \<and>
   (\<forall>c. LeafCertificate rsp \<noteq> [] \<and> P (LeafCertificate rsp) = Inr c \<longrightarrow>
       (case first_parse_error P ints of
          Some e \<Rightarrow> r = (fs, None, Some e)
        | None \<Rightarrow>
            (case V c \<lparr>Roots = Roots vo, Intermediates = pool\<rparr> of
               Some e \<Rightarrow> r = (fs, None, Some e)
             | None \<Rightarrow>
                 (nowNB < NotBefore c \<longrightarrow> r = (fs, None, Some ErrNotYetValid)) \<and>
                 (NotBefore c \<le> nowNB \<and> NotAfter c < nowNA \<longrightarrow>
                    r = (fs, None, Some ErrExpired)) \<and>
                 (NotBefore c \<le> nowNB \<and> nowNA \<le> NotAfter c \<longrightarrow>
                    r = (fst w, Some c, snd w)))))"
    unfolding r_def w_def ints_def pool_def validateAndStoreCrt_def Let_def vo
      parseIntermediates_provided
    by (auto split: sum.splits option.splits prod.splits)
  have b: "set pool = {c. \<exists>b \<in> set ints. P b = Inr c}" "distinct pool"
    unfolding pool_def ints_def provided_intermediates_def
    by (simp_all add: set_first_occurrences set_parsed_certificates distinct_first_occurrences)
  note c = first_parse_error_None [of P ints]
  have d: "\<forall>e. first_parse_error P ints = Some e \<longrightarrow> (\<exists>b \<in> set ints. P b = Inl e)"
    using first_parse_error_Some [of P ints] by blast
  from a b c d show ?thesis
    by blast
qed

text \<open>
  An instance. The end-entity directory exists with mode 0700 and holds no certificate
  file. The parser refuses the bytes \<open>[9]\<close> and reads any other bytes as a certificate
  valid from 10 to 20. The verifier, which answers at the time written after it, accepts a
  certificate that is valid at that time under the one root when the intermediates are
  the certificates of \<open>[2]\<close> and \<open>[3]\<close>, in this order.

  With both intermediates provided (one of them twice) and the clock at 15, the leaf is
  written and the file gets mode 0600. With the clock moving from 20 to 21 between
  verification and the second reading the response is refused as expired, and with the
  clock set back from 10 to 9 as not yet valid. With only the first intermediate
  provided the verification fails, and with an entry that does not parse the error of the
  parser is returned. In the last four cases the files are as before.
\<close>

theorem validateAndStoreCrt_checks_witness:
  "validateAndStoreCrt
     (\<lambda>b. if b = [9] then Inl (ErrOther ''asn1'')
          else Inr \<lparr>Raw = b, NotBefore = 10, NotAfter = 20\<rparr>)
     (\<lambda>c v. if NotBefore c \<le> 15 \<and> 15 \<le> NotAfter c \<and>
               Roots v = [\<lparr>Raw = [0], NotBefore = 0, NotAfter = 100\<rparr>] \<and>
               Intermediates v = [\<lparr>Raw = [2], NotBefore = 10, NotAfter = 20\<rparr>,
                                  \<lparr>Raw = [3], NotBefore = 10, NotAfter = 20\<rparr>]
            then None else Some (ErrOther ''x509''))
     15 15
     (\<lambda>p. if p = ''/ee'' then Exists \<lparr>Mode = ModeDir OR octal 7 0 0, Data = []\<rparr> else Missing)
     \<lparr>LeafCertificate = [1], IntermediateCertificates = [[2], [3], [2]]\<rparr> ''/ee/crt.pem''
     \<lparr>Roots = [\<lparr>Raw = [0], NotBefore = 0, NotAfter = 100\<rparr>], Intermediates = []\<rparr> =
   ((\<lambda>p. if p = ''/ee'' then Exists \<lparr>Mode = ModeDir OR octal 7 0 0, Data = []\<rparr> else Missing)
      (''/ee/crt.pem'' := Exists \<lparr>Mode = octal 6 0 0, Data = [1]\<rparr>),
    Some \<lparr>Raw = [1], NotBefore = 10, NotAfter = 20\<rparr>, None) \<and>
   validateAndStoreCrt
     (\<lambda>b. if b = [9] then Inl (ErrOther ''asn1'')
          else Inr \<lparr>Raw = b, NotBefore = 10, NotAfter = 20\<rparr>)
     (\<lambda>c v. if NotBefore c \<le> 20 \<and> 20 \<le> NotAfter c \<and>
               Roots v = [\<lparr>Raw = [0], NotBefore = 0, NotAfter = 100\<rparr>] \<and>
               Intermediates v = [\<lparr>Raw = [2], NotBefore = 10, NotAfter = 20\<rparr>,
                                  \<lparr>Raw = [3], NotBefore = 10, NotAfter = 20\<rparr>]
            then None else Some (ErrOther ''x509''))
     20 21
     (\<lambda>p. if p = ''/ee'' then Exists \<lparr>Mode = ModeDir OR octal 7 0 0, Data = []\<rparr> else Missing)
     \<lparr>LeafCertificate = [1], IntermediateCertificates = [[2], [3]]\<rparr> ''/ee/crt.pem''
     \<lparr>Roots = [\<lparr>Raw = [0], NotBefore = 0, NotAfter = 100\<rparr>], Intermediates = []\<rparr> =
   ((\<lambda>p. if p = ''/ee'' then Exists \<lparr>Mode = ModeDir OR octal 7 0 0, Data = []\<rparr> else Missing),
    None, Some ErrExpired) \<and>
   validateAndStoreCrt
     (\<lambda>b. if b = [9] then Inl (ErrOther ''asn1'')
          else Inr \<lparr>Raw = b, NotBefore = 10, NotAfter = 20\<rparr>)
     (\<lambda>c v. if NotBefore c \<le> 10 \<and> 10 \<le> NotAfter c \<and>
               Roots v = [\<lparr>Raw = [0], NotBefore = 0, NotAfter = 100\<rparr>] \<and>
               Intermediates v = [\<lparr>Raw = [2], NotBefore = 10, NotAfter = 20\<rparr>,
                                  \<lparr>Raw = [3], NotBefore = 10, NotAfter = 20\<rparr>]
            then None else Some (ErrOther ''x509''))
     9 9
     (\<lambda>p. if p = ''/ee'' then Exists \<lparr>Mode = ModeDir OR octal 7 0 0, Data = []\<rparr> else Missing)
     \<lparr>LeafCertificate = [1], IntermediateCertificates = [[2], [3]]\<rparr> ''/ee/crt.pem''
     \<lparr>Roots = [\<lparr>Raw = [0], NotBefore = 0, NotAfter = 100\<rparr>], Intermediates = []\<rparr> =
   ((\<lambda>p. if p = ''/ee'' then Exists \<lparr>Mode = ModeDir OR octal 7 0 0, Data = []\<rparr> else Missing),
    None, Some ErrNotYetValid) \<and>
   validateAndStoreCrt
     (\<lambda>b. if b = [9] then Inl (ErrOther ''asn1'')
          else Inr \<lparr>Raw = b, NotBefore = 10, NotAfter = 20\<rparr>)
     (\<lambda>c v. if NotBefore c \<le> 15 \<and> 15 \<le> NotAfter c \<and>
               Roots v = [\<lparr>Raw = [0], NotBefore = 0, NotAfter = 100\<rparr>] \<and>
               Intermediates v = [\<lparr>Raw = [2], NotBefore = 10, NotAfter = 20\<rparr>,
                                  \<lparr>Raw = [3], NotBefore = 10, NotAfter = 20\<rparr>]
            then None else Some (ErrOther ''x509''))
     15 15
     (\<lambda>p. if p = ''/ee'' then Exists \<lparr>Mode = ModeDir OR octal 7 0 0, Data = []\<rparr> else Missing)
     \<lparr>LeafCertificate = [1], IntermediateCertificates = [[2]]\<rparr> ''/ee/crt.pem''
     \<lparr>Roots = [\<lparr>Raw = [0], NotBefore = 0, NotAfter = 100\<rparr>], Intermediates = []\<rparr> =
   ((\<lambda>p. if p = ''/ee'' then Exists \<lparr>Mode = ModeDir OR octal 7 0 0, Data = []\<rparr> else Missing),
    None, Some (ErrOther ''x509'')) \<and>
   validateAndStoreCrt
     (\<lambda>b. if b = [9] then Inl (ErrOther ''asn1'')
          else Inr \<lparr>Raw = b, NotBefore = 10, NotAfter = 20\<rparr>)
     (\<lambda>c v. if NotBefore c \<le> 15 \<and> 15 \<le> NotAfter c \<and>
               Roots v = [\<lparr>Raw = [0], NotBefore = 0, NotAfter = 100\<rparr>] \<and>
               Intermediates v = [\<lparr>Raw = [2], NotBefore = 10, NotAfter = 20\<rparr>,
                                  \<lparr>Raw = [3], NotBefore = 10, NotAfter = 20\<rparr>]
            then None else Some (ErrOther ''x509''))
     15 15
     (\<lambda>p. if p = ''/ee'' then Exists \<lparr>Mode = ModeDir OR octal 7 0 0, Data = []\<rparr> else Missing)
     \<lparr>LeafCertificate = [1], IntermediateCertificates = [[2], [9], [3]]\<rparr> ''/ee/crt.pem''
     \<lparr>Roots = [\<lparr>Raw = [0], NotBefore = 0, NotAfter = 100\<rparr>], Intermediates = []\<rparr> =
   ((\<lambda>p. if p = ''/ee'' then Exists \<lparr>Mode = ModeDir OR octal 7 0 0, Data = []\<rparr> else Missing),
    None, Some (ErrOther ''asn1''))"
proof -
  let ?P = "\<lambda>b. if b = [9] then Inl (ErrOther ''asn1'')
          else Inr \<lparr>Raw = b, NotBefore = 10, NotAfter = 20\<rparr>"
  let ?V = "\<lambda>T c v. if NotBefore c \<le> T \<and> T \<le> NotAfter c \<and>
               Roots v = [\<lparr>Raw = [0], NotBefore = 0, NotAfter = 100\<rparr>] \<and>
               Intermediates v = [\<lparr>Raw = [2], NotBefore = 10, NotAfter = 20\<rparr>,
                                  \<lparr>Raw = [3], NotBefore = 10, NotAfter = 20\<rparr>]
            then None else Some (ErrOther ''x509'')"
  let ?fs = "\<lambda>p. if p = ''/ee'' then Exists \<lparr>Mode = ModeDir OR octal 7 0 0, Data = []\<rparr>
          else Missing"
  let ?vo = "\<lparr>Roots = [\<lparr>Raw = [0], NotBefore = 0, NotAfter = 100\<rparr>], Intermediates = []\<rparr>"
  let ?c = "\<lparr>Raw = [1], NotBefore = 10, NotAfter = 20\<rparr>"
  have h: "LeafCertificate \<lparr>LeafCertificate = [1], IntermediateCertificates = ints\<rparr> \<noteq> [] \<and>
      ?P (LeafCertificate \<lparr>LeafCertificate = [1], IntermediateCertificates = ints\<rparr>) = Inr ?c"
    for ints
    by simp
  have w: "ioutil_WriteFile ?fs ''/ee/crt.pem'' [1] (octal 6 0 0) =
      (?fs(''/ee/crt.pem'' := Exists \<lparr>Mode = octal 6 0 0, Data = [1]\<rparr>), None)"
    by (simp add: ioutil_WriteFile_def filepath_Dir_def filepath_Clean_def IsDir_def
        ModeDir_def owner_may_def octal_def)
  have p3: "first_parse_error ?P [[2], [3], [2]] = None"
    "provided_intermediates ?P [[2], [3], [2]] =
       [\<lparr>Raw = [2], NotBefore = 10, NotAfter = 20\<rparr>, \<lparr>Raw = [3], NotBefore = 10, NotAfter = 20\<rparr>]"
    by (simp_all add: first_parse_error_def provided_intermediates_def parsed_certificates_def)
  have p2: "first_parse_error ?P [[2], [3]] = None"
    "provided_intermediates ?P [[2], [3]] =
       [\<lparr>Raw = [2], NotBefore = 10, NotAfter = 20\<rparr>, \<lparr>Raw = [3], NotBefore = 10, NotAfter = 20\<rparr>]"
    by (simp_all add: first_parse_error_def provided_intermediates_def parsed_certificates_def)
  have p1: "first_parse_error ?P [[2]] = None"
    "provided_intermediates ?P [[2]] = [\<lparr>Raw = [2], NotBefore = 10, NotAfter = 20\<rparr>]"
    by (simp_all add: first_parse_error_def provided_intermediates_def parsed_certificates_def)
  have p9: "first_parse_error ?P [[2], [9], [3]] = Some (ErrOther ''asn1'')"
    by (simp add: first_parse_error_def)
  have a: "validateAndStoreCrt ?P (?V 15) 15 15 ?fs
      \<lparr>LeafCertificate = [1], IntermediateCertificates = [[2], [3], [2]]\<rparr> ''/ee/crt.pem'' ?vo =
      (?fs(''/ee/crt.pem'' := Exists \<lparr>Mode = octal 6 0 0, Data = [1]\<rparr>), Some ?c, None)"
    using validateAndStoreCrt_checks [where P = ?P and V = "?V 15" and nowNB = 15 and nowNA = 15
        and fs = ?fs and cp = "''/ee/crt.pem''" and vo = ?vo
        and rsp = "\<lparr>LeafCertificate = [1], IntermediateCertificates = [[2], [3], [2]]\<rparr>",
        THEN conjunct2, THEN conjunct2, THEN conjunct1, rule_format, OF h]
    by (simp add: p3 w)
  have b: "validateAndStoreCrt ?P (?V 20) 20 21 ?fs
      \<lparr>LeafCertificate = [1], IntermediateCertificates = [[2], [3]]\<rparr> ''/ee/crt.pem'' ?vo =
      (?fs, None, Some ErrExpired)"
    using validateAndStoreCrt_checks [where P = ?P and V = "?V 20" and nowNB = 20 and nowNA = 21
        and fs = ?fs and cp = "''/ee/crt.pem''" and vo = ?vo
        and rsp = "\<lparr>LeafCertificate = [1], IntermediateCertificates = [[2], [3]]\<rparr>",
        THEN conjunct2, THEN conjunct2, THEN conjunct1, rule_format, OF h]
    by (simp add: p2)
  have c: "validateAndStoreCrt ?P (?V 10) 9 9 ?fs
      \<lparr>LeafCertificate = [1], IntermediateCertificates = [[2], [3]]\<rparr> ''/ee/crt.pem'' ?vo =
      (?fs, None, Some ErrNotYetValid)"
    using validateAndStoreCrt_checks [where P = ?P and V = "?V 10" and nowNB = 9 and nowNA = 9
        and fs = ?fs and cp = "''/ee/crt.pem''" and vo = ?vo
        and rsp = "\<lparr>LeafCertificate = [1], IntermediateCertificates = [[2], [3]]\<rparr>",
        THEN conjunct2, THEN conjunct2, THEN conjunct1, rule_format, OF h]
    by (simp add: p2)
  have d: "validateAndStoreCrt ?P (?V 15) 15 15 ?fs
      \<lparr>LeafCertificate = [1], IntermediateCertificates = [[2]]\<rparr> ''/ee/crt.pem'' ?vo =
      (?fs, None, Some (ErrOther ''x509''))"
    using validateAndStoreCrt_checks [where P = ?P and V = "?V 15" and nowNB = 15 and nowNA = 15
        and fs = ?fs and cp = "''/ee/crt.pem''" and vo = ?vo
        and rsp = "\<lparr>LeafCertificate = [1], IntermediateCertificates = [[2]]\<rparr>",
        THEN conjunct2, THEN conjunct2, THEN conjunct1, rule_format, OF h]
    by (simp add: p1)
  have e: "validateAndStoreCrt ?P (?V 15) 15 15 ?fs
      \<lparr>LeafCertificate = [1], IntermediateCertificates = [[2], [9], [3]]\<rparr> ''/ee/crt.pem'' ?vo =
      (?fs, None, Some (ErrOther ''asn1''))"
    using validateAndStoreCrt_checks [where P = ?P and V = "?V 15" and nowNB = 15 and nowNA = 15
        and fs = ?fs and cp = "''/ee/crt.pem''" and vo = ?vo
        and rsp = "\<lparr>LeafCertificate = [1], IntermediateCertificates = [[2], [9], [3]]\<rparr>",
        THEN conjunct2, THEN conjunct2, THEN conjunct1, rule_format, OF h]
    by (simp add: p9)
  from a b c d e show ?thesis
    by simp
qed


subsection \<open>The renewal loop\<close>

lemma certify_calls_append: "certify_calls (xs @ ys) = certify_calls xs @ certify_calls ys"
  by (induction xs rule: certify_calls.induct) simp_all

lemma loop_body_calls:
  "certify_calls (fst (loop_body lib it a)) =
     [(certifyReq a)\<lparr>Token := last_successful_read (Token (certifyReq a)) [tokenFile it]\<rparr>]"
  unfolding loop_body_def Let_def
  by (simp add: certify_calls_append split: sum.split option.split prod.split select_case.split)

lemma loop_body_req:
  "certifyReq (snd (loop_body lib it a)) =
     (certifyReq a)\<lparr>Token := last_successful_read (Token (certifyReq a)) [tokenFile it]\<rparr>"
  unfolding loop_body_def Let_def
  by (simp split: sum.split option.split prod.split select_case.split)

lemma loop_body_shape:
  "\<exists>rest. fst (loop_body lib it a) =
     ReadFile (tokenPath a) #
     (case tokenFile it of Inl err \<Rightarrow> [Errorf ''Failed to reload token: %s'' err] | Inr b \<Rightarrow> []) @
     Certify ((certifyReq a)\<lparr>Token := last_successful_read (Token (certifyReq a)) [tokenFile it]\<rparr>) #
     rest"
  unfolding loop_body_def Let_def
  by (simp split: sum.split option.split prod.split select_case.split)

lemma last_successful_read_Cons:
  "last_successful_read t0 (r # rs) = last_successful_read (last_successful_read t0 [r]) rs"
  by (cases r) simp_all

lemma main_loop_tokens:
  "map Token (certify_calls (fst (main_loop lib its a))) =
     map (\<lambda>n. last_successful_read (Token (certifyReq a)) (take (Suc n) (map tokenFile its)))
       [0..<length its]"
proof (induction its arbitrary: a)
  case Nil
  show ?case by simp
next
  case (Cons it its)
  obtain ev a' where b: "loop_body lib it a = (ev, a')" by (cases "loop_body lib it a")
  obtain evs a'' where l: "main_loop lib its a' = (evs, a'')" by (cases "main_loop lib its a'")
  have c: "certify_calls ev =
      [(certifyReq a)\<lparr>Token := last_successful_read (Token (certifyReq a)) [tokenFile it]\<rparr>]"
    using loop_body_calls [of lib it a] b by simp
  have r: "Token (certifyReq a') = last_successful_read (Token (certifyReq a)) [tokenFile it]"
    using loop_body_req [of lib it a] b by simp
  have ih: "map Token (certify_calls evs) =
      map (\<lambda>n. last_successful_read (Token (certifyReq a')) (take (Suc n) (map tokenFile its)))
        [0..<length its]"
    using Cons.IH [of a'] l by simp
  have "map Token (certify_calls (fst (main_loop lib (it # its) a))) =
      last_successful_read (Token (certifyReq a)) [tokenFile it] # map Token (certify_calls evs)"
    using b l c by (simp add: certify_calls_append)
  also have "\<dots> =
      map (\<lambda>n. last_successful_read (Token (certifyReq a)) (take (Suc n) (map tokenFile (it # its))))
        [0..<length (it # its)]"
    unfolding ih r
    by (simp add: map_upt_Suc del: upt_Suc last_successful_read.simps
        flip: last_successful_read_Cons)
  finally show ?case .
qed

lemma loop_body_tokenPath: "tokenPath (snd (loop_body lib it a)) = tokenPath a"
  unfolding loop_body_def Let_def
  by (simp split: sum.split option.split prod.split select_case.split)

text \<open>
  The loop is entered with the token that was read at the start, with the path of the
  token file as given on the command line, and without a certificate.
\<close>

lemma agent_start_token:
  assumes "agent_start lib fl fs = (ev, fs', Some a)"
  shows "ioutil_ReadFile fs' (flag_tokenPath fl) = Inr (Token (certifyReq a)) \<and>
         tokenPath a = flag_tokenPath fl \<and> crt a = None \<and> files a = fs'"
  using assms unfolding agent_start_def
  by (auto split: sum.splits option.splits prod.splits if_splits)

text \<open>Every pass calls Certify once, whichever case of the \<^verbatim>\<open>select\<close> ended the pass before.\<close>

lemma main_loop_calls_every_pass:
  "length (certify_calls (fst (main_loop lib its a))) = length its"
proof -
  have "length (map Token (certify_calls (fst (main_loop lib its a)))) = length its"
    unfolding main_loop_tokens by simp
  then show ?thesis by simp
qed

text \<open>
  C9. Each pass of the loop begins by reading the token file, logs the error when the
  read fails, and then calls Certify with the request whose token is the value just
  read, or the token of the request as it stood when the read failed; the path of the
  token file is the same in the next pass. Over the passes,
  the token of the \<open>n\<close>-th call is the value of the last read that succeeded among the
  read made before the loop and the first \<open>n\<close> reads of the loop.
\<close>

theorem token_reloaded_each_pass:
  "(\<exists>rest. fst (loop_body lib it a) =
      ReadFile (tokenPath a) #
      (case tokenFile it of Inl err \<Rightarrow> [Errorf ''Failed to reload token: %s'' err] | Inr b \<Rightarrow> []) @
      Certify ((certifyReq a)\<lparr>Token := last_successful_read (Token (certifyReq a)) [tokenFile it]\<rparr>) #
      rest) \<and>
   tokenPath (snd (loop_body lib it a)) = tokenPath a \<and>
   map Token (certify_calls (fst (main_loop lib its a))) =
     map (\<lambda>n. last_successful_read (Token (certifyReq a)) (take (Suc n) (map tokenFile its)))
       [0..<length its]"
  using loop_body_shape loop_body_tokenPath main_loop_tokens by blast

text \<open>
  C4. The claim: when the stop signal arrives during the sleep, the loop logs one last
  line and ends, and no Certify call follows. In the code the stop case of the
  \<^verbatim>\<open>select\<close> only logs; nothing leaves the \<^verbatim>\<open>for\<close> statement. With the signal received
  in the first pass, the line \<^verbatim>\<open>Shutting down...\<close> is followed by a second pass, which
  reads the token and calls Certify again.
\<close>

theorem main_loop_continues_after_stop:
  "fst (main_loop lib
     [\<lparr>tokenFile = Inr [7], certifyReply = Inl (ErrOther ''unavailable''), clockValidate1 = 0,
       clockValidate2 = 0, clockRefresh = 0, selected = StopReceived\<rparr>,
      \<lparr>tokenFile = Inr [7], certifyReply = Inl (ErrOther ''unavailable''), clockValidate1 = 0,
       clockValidate2 = 0, clockRefresh = 0, selected = TimerFired\<rparr>]
     \<lparr>files = (\<lambda>p. Missing), tokenPath = ''/token'', name = ''web'', crtPath = ''/ee/crt.pem'',
      verify = \<lparr>Roots = [], Intermediates = []\<rparr>,
      certifyReq = \<lparr>Identity = ''web'', CertificateSigningRequest = [], Token = [7]\<rparr>,
      crt = None\<rparr>) =
   [ReadFile ''/token'',
    Certify \<lparr>Identity = ''web'', CertificateSigningRequest = [], Token = [7]\<rparr>,
    Errorf ''Failed to obtain certificate: %s'' (ErrOther ''unavailable''),
    InfofNoCert MIN_REFRESH_TIME, NewTimer MIN_REFRESH_TIME, Info ''Shutting down...'',
    ReadFile ''/token'',
    Certify \<lparr>Identity = ''web'', CertificateSigningRequest = [], Token = [7]\<rparr>,
    Errorf ''Failed to obtain certificate: %s'' (ErrOther ''unavailable''),
    InfofNoCert MIN_REFRESH_TIME, NewTimer MIN_REFRESH_TIME]"
  by (simp add: loop_body_def)

text \<open>
  After a reply of the service, the certificate the agent holds is whatever
  \<open>validateAndStoreCrt\<close> returned, also when that is \<^verbatim>\<open>nil\<close>; after a failed call it is
  the one held before.
\<close>

lemma loop_body_crt:
  "crt (snd (loop_body lib it a)) =
     (case certifyReply it of
        Inl err \<Rightarrow> crt a
      | Inr rsp \<Rightarrow>
          fst (snd (validateAndStoreCrt (x509_ParseCertificate lib) (Certificate_Verify lib)
            (clockValidate1 it) (clockValidate2 it) (files a) rsp (crtPath a) (verify a))))"
  unfolding loop_body_def Let_def
  by (simp split: sum.split option.split prod.split select_case.split)

text \<open>
  C5. The claim: when the response fails validation, the certificate held so far is kept
  for scheduling the next refresh. The code assigns both results of
  \<open>validateAndStoreCrt\<close>, so a refused response sets the held certificate to \<^verbatim>\<open>nil\<close>:
  the agent below holds a certificate with 100 s left, receives a response with an empty
  leaf, and goes on without a certificate and with the minimum interval. When the call
  itself fails the same agent keeps its certificate and schedules the refresh after 80 s.
  In both cases the files are untouched and the error is logged.
\<close>

theorem loop_body_drops_certificate:
  "loop_body lib
     \<lparr>tokenFile = Inr [7],
      certifyReply = Inr \<lparr>LeafCertificate = [], IntermediateCertificates = []\<rparr>,
      clockValidate1 = 0, clockValidate2 = 0, clockRefresh = 0, selected = TimerFired\<rparr>
     \<lparr>files = fs, tokenPath = ''/token'', name = ''web'', crtPath = ''/ee/crt.pem'',
      verify = \<lparr>Roots = [], Intermediates = []\<rparr>,
      certifyReq = \<lparr>Identity = ''web'', CertificateSigningRequest = [], Token = [7]\<rparr>,
      crt = Some \<lparr>Raw = [1], NotBefore = 0, NotAfter = 100 * Second\<rparr>\<rparr> =
   ([ReadFile ''/token'',
     Certify \<lparr>Identity = ''web'', CertificateSigningRequest = [], Token = [7]\<rparr>,
     Errorf ''Failed to validate and store certificate: %s'' ErrNoCertificate,
     InfofNoCert MIN_REFRESH_TIME, NewTimer MIN_REFRESH_TIME],
    \<lparr>files = fs, tokenPath = ''/token'', name = ''web'', crtPath = ''/ee/crt.pem'',
      verify = \<lparr>Roots = [], Intermediates = []\<rparr>,
      certifyReq = \<lparr>Identity = ''web'', CertificateSigningRequest = [], Token = [7]\<rparr>,
      crt = None\<rparr>) \<and>
   loop_body lib
     \<lparr>tokenFile = Inr [7],
      certifyReply = Inl (ErrOther ''unavailable''),
      clockValidate1 = 0, clockValidate2 = 0, clockRefresh = 0, selected = TimerFired\<rparr>
     \<lparr>files = fs, tokenPath = ''/token'', name = ''web'', crtPath = ''/ee/crt.pem'',
      verify = \<lparr>Roots = [], Intermediates = []\<rparr>,
      certifyReq = \<lparr>Identity = ''web'', CertificateSigningRequest = [], Token = [7]\<rparr>,
      crt = Some \<lparr>Raw = [1], NotBefore = 0, NotAfter = 100 * Second\<rparr>\<rparr> =
   ([ReadFile ''/token'',
     Certify \<lparr>Identity = ''web'', CertificateSigningRequest = [], Token = [7]\<rparr>,
     Errorf ''Failed to obtain certificate: %s'' (ErrOther ''unavailable''),
     InfofCert ''web'' (100 * Second) (80 * Second), NewTimer (80 * Second)],
    \<lparr>files = fs, tokenPath = ''/token'', name = ''web'', crtPath = ''/ee/crt.pem'',
      verify = \<lparr>Roots = [], Intermediates = []\<rparr>,
      certifyReq = \<lparr>Identity = ''web'', CertificateSigningRequest = [], Token = [7]\<rparr>,
      crt = Some \<lparr>Raw = [1], NotBefore = 0, NotAfter = 100 * Second\<rparr>\<rparr>)"
  by (simp add: loop_body_def validateAndStoreCrt_def beforeExpiry_def time_Until_def
      Time_Sub_def MIN_REFRESH_TIME_def MAX_REFRESH_TIME_def Hour_def Second_def
      Millisecond_def maxDuration_def minDuration_def go_quo_def int64_def)

subsection \<open>The start of the identity service\<close>

lemma identity_main_verify_once:
  assumes "identity_main lib fl fs = evs"
  shows "length (filter is_VerifyIssuer evs) \<le> 1"
  using assms unfolding identity_main_def
  by (auto split: sum.splits option.splits)

lemma identity_main_fails:
  assumes "idctl_NewTrustDomain lib (svc_controllerNS fl) (svc_trustDomain fl) = None"
    and "ioutil_ReadFile fs (svc_trustAnchorsPath fl) = Inr tab"
    and "svc_DecodePEMCertPool lib tab = Inr anchors"
    and "tls_ReadPEMCreds lib (filepath_Join (svc_issuerPath fl) ''key.pem'')
        (filepath_Join (svc_issuerPath fl) ''crt.pem'') = Inr creds"
    and "Crt_Verify lib creds anchors (expectedName fl) = Some e"
  shows "identity_main lib fl fs =
       [VerifyIssuer (expectedName fl) (Some e),
        SvcFatalf ''Failed to verify issuer credentials for '%s' with trust anchors: %s''
          (Some e)]"
  using assms unfolding identity_main_def
  by simp

lemma identity_main_serves:
  assumes "identity_main lib fl fs = evs" and "Serve ad \<in> set evs"
  shows "\<exists>tab anchors creds.
         ioutil_ReadFile fs (svc_trustAnchorsPath fl) = Inr tab \<and>
         svc_DecodePEMCertPool lib tab = Inr anchors \<and>
         tls_ReadPEMCreds lib (filepath_Join (svc_issuerPath fl) ''key.pem'')
           (filepath_Join (svc_issuerPath fl) ''crt.pem'') = Inr creds \<and>
         Crt_Verify lib creds anchors (expectedName fl) = None \<and>
         evs =
           [VerifyIssuer (expectedName fl) None,
            AdminStartServer (svc_adminAddr fl), Listen (svc_addr fl), Serve (svc_addr fl)]"
  using assms unfolding identity_main_def
  by (auto split: sum.splits option.splits)

text \<open>
  C6. The name under which the issuer certificate is verified is
  \<^verbatim>\<open>identity.<controllerNamespace>.<trustDomain>\<close>. In every run of the start-up the
  verification is made at most once. When the trust domain, the trust anchors and the
  issuer credentials load and the verification of the issuer certificate against those
  anchors under that name fails, the run consists of the verification and the fatal log
  line: nothing is served. When the run reaches the gRPC server, the verification, made
  with the loaded anchors and credentials, succeeded and is the first event, before the
  admin server, the listener and the server.
\<close>

theorem issuer_verified_before_serving:
  "expectedName fl = ''identity.'' @ svc_controllerNS fl @ ''.'' @ svc_trustDomain fl \<and>
   length (filter is_VerifyIssuer (identity_main lib fl fs)) \<le> 1 \<and>
   (\<forall>tab anchors creds e.
      idctl_NewTrustDomain lib (svc_controllerNS fl) (svc_trustDomain fl) = None \<and>
      ioutil_ReadFile fs (svc_trustAnchorsPath fl) = Inr tab \<and>
      svc_DecodePEMCertPool lib tab = Inr anchors \<and>
      tls_ReadPEMCreds lib (filepath_Join (svc_issuerPath fl) ''key.pem'')
        (filepath_Join (svc_issuerPath fl) ''crt.pem'') = Inr creds \<and>
      Crt_Verify lib creds anchors (expectedName fl) = Some e \<longrightarrow>
      identity_main lib fl fs =
        [VerifyIssuer (expectedName fl) (Some e),
         SvcFatalf ''Failed to verify issuer credentials for '%s' with trust anchors: %s''
           (Some e)]) \<and>
   (\<forall>ad. Serve ad \<in> set (identity_main lib fl fs) \<longrightarrow>
      (\<exists>tab anchors creds.
         ioutil_ReadFile fs (svc_trustAnchorsPath fl) = Inr tab \<and>
         svc_DecodePEMCertPool lib tab = Inr anchors \<and>
         tls_ReadPEMCreds lib (filepath_Join (svc_issuerPath fl) ''key.pem'')
           (filepath_Join (svc_issuerPath fl) ''crt.pem'') = Inr creds \<and>
         Crt_Verify lib creds anchors (expectedName fl) = None \<and>
         identity_main lib fl fs =
           [VerifyIssuer (expectedName fl) None,
            AdminStartServer (svc_adminAddr fl), Listen (svc_addr fl), Serve (svc_addr fl)]))"
proof -
  have "expectedName fl = ''identity.'' @ svc_controllerNS fl @ ''.'' @ svc_trustDomain fl"
    by (simp add: expectedName_def)
  moreover have "length (filter is_VerifyIssuer (identity_main lib fl fs)) \<le> 1"
    by (rule identity_main_verify_once [OF refl])
  moreover note identity_main_fails [of lib fl fs] identity_main_serves [OF refl, of _ lib fl fs]
  ultimately show ?thesis
    by blast
qed

text \<open>
  An instance. The anchors decode to one root, and the issuer certificate verifies
  against a pool exactly when the pool is that root. With the anchors loaded the service
  gets as far as serving; with an anchor file that decodes to another certificate the
  verification fails and the process ends.
\<close>

theorem issuer_verified_before_serving_witness:
  "identity_main
     \<lparr>idctl_NewTrustDomain = (\<lambda>ns td. None),
      svc_DecodePEMCertPool = (\<lambda>b. Inr [\<lparr>Raw = b, NotBefore = 0, NotAfter = 100\<rparr>]),
      tls_ReadPEMCreds = (\<lambda>k c. Inr (0 :: nat)),
      Crt_Verify = (\<lambda>c pool n.
        if pool = [\<lparr>Raw = [1], NotBefore = 0, NotAfter = 100\<rparr>] \<and>
           n = ''identity.linkerd.cluster.local''
        then None else Some (ErrOther ''unknown authority'')),
      k8s_NewClientSet = (\<lambda>p. None),
      idctl_NewK8sTokenValidator = None,
      net_Listen = (\<lambda>a. None)\<rparr>
     \<lparr>svc_addr = '':8083'', svc_adminAddr = '':9996'', svc_kubeConfigPath = [],
      svc_controllerNS = ''linkerd'', svc_trustDomain = ''cluster.local'',
      svc_trustAnchorsPath = ''/ta.pem'', svc_issuerPath = ''/issuer'',
      svc_issuanceLifetime = 24 * Hour, svc_clockSkewAllowance = 0\<rparr>
     (\<lambda>p. if p = ''/ta.pem'' then Exists \<lparr>Mode = octal 6 4 4, Data = [2]\<rparr> else Missing) =
   [VerifyIssuer ''identity.linkerd.cluster.local'' (Some (ErrOther ''unknown authority'')),
    SvcFatalf ''Failed to verify issuer credentials for '%s' with trust anchors: %s''
      (Some (ErrOther ''unknown authority''))] \<and>
   identity_main
     \<lparr>idctl_NewTrustDomain = (\<lambda>ns td. None),
      svc_DecodePEMCertPool = (\<lambda>b. Inr [\<lparr>Raw = b, NotBefore = 0, NotAfter = 100\<rparr>]),
      tls_ReadPEMCreds = (\<lambda>k c. Inr (0 :: nat)),
      Crt_Verify = (\<lambda>c pool n.
        if pool = [\<lparr>Raw = [1], NotBefore = 0, NotAfter = 100\<rparr>] \<and>
           n = ''identity.linkerd.cluster.local''
        then None else Some (ErrOther ''unknown authority'')),
      k8s_NewClientSet = (\<lambda>p. None),
      idctl_NewK8sTokenValidator = None,
      net_Listen = (\<lambda>a. None)\<rparr>
     \<lparr>svc_addr = '':8083'', svc_adminAddr = '':9996'', svc_kubeConfigPath = [],
      svc_controllerNS = ''linkerd'', svc_trustDomain = ''cluster.local'',
      svc_trustAnchorsPath = ''/ta.pem'', svc_issuerPath = ''/issuer'',
      svc_issuanceLifetime = 24 * Hour, svc_clockSkewAllowance = 0\<rparr>
     (\<lambda>p. if p = ''/ta.pem'' then Exists \<lparr>Mode = octal 6 4 4, Data = [1]\<rparr> else Missing) =
   [VerifyIssuer ''identity.linkerd.cluster.local'' None, AdminStartServer '':9996'',
    Listen '':8083'', Serve '':8083''] \<and>
   Crt_Verify
     \<lparr>idctl_NewTrustDomain = (\<lambda>ns td. None),
      svc_DecodePEMCertPool = (\<lambda>b. Inr [\<lparr>Raw = b, NotBefore = 0, NotAfter = 100\<rparr>]),
      tls_ReadPEMCreds = (\<lambda>k c. Inr (0 :: nat)),
      Crt_Verify = (\<lambda>c pool n.
        if pool = [\<lparr>Raw = [1], NotBefore = 0, NotAfter = 100\<rparr>] \<and>
           n = ''identity.linkerd.cluster.local''
        then None else Some (ErrOther ''unknown authority'')),
      k8s_NewClientSet = (\<lambda>p. None),
      idctl_NewK8sTokenValidator = None,
      net_Listen = (\<lambda>a. None)\<rparr>
     0 [\<lparr>Raw = [1], NotBefore = 0, NotAfter = 100\<rparr>] ''identity.linkerd.cluster.local'' = None"
proof -
  let ?lib = "\<lparr>idctl_NewTrustDomain = (\<lambda>ns td. None),
      svc_DecodePEMCertPool = (\<lambda>b. Inr [\<lparr>Raw = b, NotBefore = 0, NotAfter = 100\<rparr>]),
      tls_ReadPEMCreds = (\<lambda>k c. Inr (0 :: nat)),
      Crt_Verify = (\<lambda>c pool n.
        if pool = [\<lparr>Raw = [1], NotBefore = 0, NotAfter = 100\<rparr>] \<and>
           n = ''identity.linkerd.cluster.local''
        then None else Some (ErrOther ''unknown authority'')),
      k8s_NewClientSet = (\<lambda>p. None),
      idctl_NewK8sTokenValidator = None,
      net_Listen = (\<lambda>a. None)\<rparr>"
  let ?fl = "\<lparr>svc_addr = '':8083'', svc_adminAddr = '':9996'', svc_kubeConfigPath = [],
      svc_controllerNS = ''linkerd'', svc_trustDomain = ''cluster.local'',
      svc_trustAnchorsPath = ''/ta.pem'', svc_issuerPath = ''/issuer'',
      svc_issuanceLifetime = 24 * Hour, svc_clockSkewAllowance = 0\<rparr>"
  let ?bad = "\<lambda>p. if p = ''/ta.pem'' then Exists \<lparr>Mode = octal 6 4 4, Data = [2]\<rparr> else Missing"
  let ?good = "\<lambda>p. if p = ''/ta.pem'' then Exists \<lparr>Mode = octal 6 4 4, Data = [1]\<rparr> else Missing"
  have n: "expectedName ?fl = ''identity.linkerd.cluster.local''"
    by (simp add: expectedName_def)
  have h: "idctl_NewTrustDomain ?lib (svc_controllerNS ?fl) (svc_trustDomain ?fl) = None \<and>
      ioutil_ReadFile ?bad (svc_trustAnchorsPath ?fl) = Inr [2] \<and>
      svc_DecodePEMCertPool ?lib [2] = Inr [\<lparr>Raw = [2], NotBefore = 0, NotAfter = 100\<rparr>] \<and>
      tls_ReadPEMCreds ?lib (filepath_Join (svc_issuerPath ?fl) ''key.pem'')
        (filepath_Join (svc_issuerPath ?fl) ''crt.pem'') = Inr 0 \<and>
      Crt_Verify ?lib 0 [\<lparr>Raw = [2], NotBefore = 0, NotAfter = 100\<rparr>] (expectedName ?fl) =
        Some (ErrOther ''unknown authority'')"
    by (simp add: ioutil_ReadFile_def IsDir_def ModeDir_def octal_def)
  have a: "identity_main ?lib ?fl ?bad =
      [VerifyIssuer ''identity.linkerd.cluster.local'' (Some (ErrOther ''unknown authority'')),
       SvcFatalf ''Failed to verify issuer credentials for '%s' with trust anchors: %s''
         (Some (ErrOther ''unknown authority''))]"
    using issuer_verified_before_serving [of ?fl ?lib ?bad, THEN conjunct2, THEN conjunct2,
        THEN conjunct1, rule_format, OF h]
    unfolding n .
  have b: "Serve '':8083'' \<in> set (identity_main ?lib ?fl ?good)"
    by (simp add: identity_main_def ioutil_ReadFile_def IsDir_def ModeDir_def octal_def
        expectedName_def)
  have c: "Crt_Verify ?lib 0 [\<lparr>Raw = [1], NotBefore = 0, NotAfter = 100\<rparr>]
      ''identity.linkerd.cluster.local'' = None"
    by simp
  have b': "identity_main ?lib ?fl ?good =
      [VerifyIssuer ''identity.linkerd.cluster.local'' None, AdminStartServer '':9996'',
       Listen '':8083'', Serve '':8083'']"
    using issuer_verified_before_serving [of ?fl ?lib ?good, THEN conjunct2, THEN conjunct2,
        THEN conjunct2, rule_format, OF b]
    unfolding n by auto
  from a b' c show ?thesis
    by blast
qed

end
